theory Spec2Isabelle
  imports Main
begin

section \<open>Python values\<close>

text \<open>
  Tasks, payloads, schemas and agent configurations are JSON-like Python values:
  \<^verbatim>\<open>None\<close>, booleans, integers, strings, lists and dicts. A dict is kept as an
  association list in insertion order; a key is looked up with Python's \<^verbatim>\<open>==\<close> on
  hashable scalars, and the first matching entry is the dict's entry. A string is the
  list of its characters, so that \<open>length\<close> is Python's \<^verbatim>\<open>len\<close>. Floating-point
  numbers and user-defined objects are outside this value type.
\<close>

datatype pyval =
    PNone
  | PBool bool
  | PInt int
  | PStr string
  | PList "pyval list"
  | PDict "(pyval \<times> pyval) list"

text \<open>Truth value of a Python value, as \<^verbatim>\<open>bool(v)\<close>, \<^verbatim>\<open>not v\<close> and \<^verbatim>\<open>if v\<close> compute it.\<close>

fun truthy :: "pyval \<Rightarrow> bool" where
  "truthy PNone = False"
| "truthy (PBool b) = b"
| "truthy (PInt n) = (n \<noteq> 0)"
| "truthy (PStr s) = (s \<noteq> [])"
| "truthy (PList xs) = (xs \<noteq> [])"
| "truthy (PDict d) = (d \<noteq> [])"

text \<open>
  Python's \<^verbatim>\<open>==\<close> on the hashable scalars (\<^verbatim>\<open>True == 1\<close> and \<^verbatim>\<open>False == 0\<close> hold in
  Python); a list or a dict is never equal to a scalar.
\<close>

fun key_eq :: "pyval \<Rightarrow> pyval \<Rightarrow> bool" where
  "key_eq PNone PNone = True"
| "key_eq (PBool a) (PBool b) = (a = b)"
| "key_eq (PBool a) (PInt n) = (n = (if a then 1 else 0))"
| "key_eq (PInt n) (PBool a) = (n = (if a then 1 else 0))"
| "key_eq (PInt m) (PInt n) = (m = n)"
| "key_eq (PStr s) (PStr t) = (s = t)"
| "key_eq _ _ = False"

text \<open>\<^verbatim>\<open>d.get(k)\<close> as an option (\<open>None\<close>: the key is missing).\<close>

fun dict_get :: "(pyval \<times> pyval) list \<Rightarrow> pyval \<Rightarrow> pyval option" where
  "dict_get [] k = None"
| "dict_get ((k', v) # d) k = (if key_eq k' k then Some v else dict_get d k)"

text \<open>\<^verbatim>\<open>d.get(k, default)\<close>; \<^verbatim>\<open>d.get(k)\<close> is \<open>get_default d k PNone\<close>.\<close>

definition get_default :: "(pyval \<times> pyval) list \<Rightarrow> pyval \<Rightarrow> pyval \<Rightarrow> pyval" where
  "get_default d k dflt = (case dict_get d k of None \<Rightarrow> dflt | Some v \<Rightarrow> v)"

lemma dict_get_size:
  "dict_get d k = Some w \<Longrightarrow> size w < size_list (size_prod size size) d"
  by (induction d) (auto split: if_splits)

lemma size_mem_list: "x \<in> set xs \<Longrightarrow> size x < Suc (size_list size xs)"
  by (induction xs) auto

lemma size_snd_mem:
  "kv \<in> set d \<Longrightarrow> size (snd kv) < size_list (size_prod size size) d"
  by (induction d) auto

text \<open>
  Python's \<^verbatim>\<open>==\<close> on all values: lists are compared element by element, dicts as
  mappings (same number of entries, every key of the left one present on the right
  with an equal value), scalars by \<open>key_eq\<close>.
\<close>

function (sequential) py_eq :: "pyval \<Rightarrow> pyval \<Rightarrow> bool" where
  "py_eq (PList xs) (PList ys) = list_all2 py_eq xs ys"
| "py_eq (PDict xs) (PDict ys) =
     (length xs = length ys \<and>
      list_all (\<lambda>kv. case dict_get ys (fst kv) of
                        None \<Rightarrow> False
                      | Some w \<Rightarrow> py_eq (snd kv) w) xs)"
| "py_eq a b = key_eq a b"
  by pat_completeness auto
termination
proof (relation "measure (\<lambda>(a, b). size a + size b)", goal_cases)
  case 1
  show ?case by simp
next
  case (2 xs ys x y)
  from size_mem_list [OF 2(1)] size_mem_list [OF 2(2)] show ?case by simp
next
  case (3 xs ys kv w)
  from size_snd_mem [OF 3(1)] dict_get_size [OF 3(2)] show ?case by simp
qed

text \<open>\<^verbatim>\<open>v in xs\<close> for a list \<open>xs\<close>.\<close>

definition py_in :: "pyval \<Rightarrow> pyval list \<Rightarrow> bool" where
  "py_in v xs = list_ex (py_eq v) xs"

text \<open>\<^verbatim>\<open>a or b\<close>.\<close>

definition py_or :: "pyval \<Rightarrow> pyval \<Rightarrow> pyval" where
  "py_or a b = (if truthy a then a else b)"

section \<open>Exceptions\<close>

text \<open>
  The three \<^verbatim>\<open>RuntimeError\<close>s the planner raises are told apart by their message:
  "No agent available to handle task ..." carries the task id,
  "Agent ... has no execution entrypoint." carries the agent's name.
\<close>

datatype runtime_error =
    NoAgentAvailable pyval
  | NoExecutionEntrypoint string
  | OutputValidationFailed

datatype error =
    AttributeError
  | TypeError
  | KeyError pyval
  | ValueError string
  | RuntimeError runtime_error
  | RecursionError
  | OtherError string

text \<open>
  Iterating a value (\<^verbatim>\<open>list(v)\<close>, \<^verbatim>\<open>for d in v\<close>): a list gives its elements, a
  string its characters, a dict its keys; \<^verbatim>\<open>None\<close>, booleans and integers are not
  iterable.
\<close>

fun py_iter :: "pyval \<Rightarrow> error + pyval list" where
  "py_iter (PList xs) = Inr xs"
| "py_iter (PStr s) = Inr (map (\<lambda>c. PStr [c]) s)"
| "py_iter (PDict d) = Inr (map fst d)"
| "py_iter _ = Inl TypeError"

text \<open>\<^verbatim>\<open>v[k]\<close> for a string key \<open>k\<close>: only a dict can be subscripted by a string.\<close>

fun subscript :: "pyval \<Rightarrow> pyval \<Rightarrow> error + pyval" where
  "subscript (PDict d) k = (case dict_get d k of None \<Rightarrow> Inl (KeyError k) | Some v \<Rightarrow> Inr v)"
| "subscript _ k = Inl TypeError"

text \<open>\<^verbatim>\<open>v.get(k, default)\<close> on any value: only a dict has the method \<^verbatim>\<open>get\<close>.\<close>

fun method_get :: "pyval \<Rightarrow> pyval \<Rightarrow> pyval \<Rightarrow> error + pyval" where
  "method_get (PDict d) k dflt = Inr (get_default d k dflt)"
| "method_get _ k dflt = Inl AttributeError"

text \<open>
  \<^verbatim>\<open>d[k] = v\<close>: an unhashable key (a list or a dict) raises \<^verbatim>\<open>TypeError\<close>; an existing
  key keeps its place and gets the new value; a new key is appended.
\<close>

fun hashable :: "pyval \<Rightarrow> bool" where
  "hashable (PList xs) = False"
| "hashable (PDict d) = False"
| "hashable _ = True"

fun dict_update :: "(pyval \<times> pyval) list \<Rightarrow> pyval \<Rightarrow> pyval \<Rightarrow> (pyval \<times> pyval) list" where
  "dict_update [] k v = [(k, v)]"
| "dict_update ((k', v') # d) k v =
     (if key_eq k' k then (k', v) # d else (k', v') # dict_update d k v)"

definition dict_setitem ::
  "(pyval \<times> pyval) list \<Rightarrow> pyval \<Rightarrow> pyval \<Rightarrow> error + (pyval \<times> pyval) list" where
  "dict_setitem d k v = (if hashable k then Inr (dict_update d k v) else Inl TypeError)"

section \<open>Comparison under the recursion limit\<close>

text \<open>
  The interpreter compares two lists or two dicts by comparing their elements, and
  each nested comparison is a nested call; when the interpreter's recursion limit is
  reached, the comparison raises \<^verbatim>\<open>RecursionError\<close>. \<open>py_eq_limited n a b\<close> is
  \<^verbatim>\<open>a == b\<close> when \<open>n\<close> nested comparisons are still allowed (1000 is CPython's
  default limit for the whole call stack). Lists of different lengths, and dicts of
  different sizes, are unequal without any comparison of elements; elements are
  compared from left to right up to the first difference or exception. Values here
  have no object identity: Python answers \<^verbatim>\<open>True\<close> at once for one and the same
  object, which can only make it raise less often on equal values.
\<close>

fun all_eq_seq ::
  "(pyval \<Rightarrow> pyval \<Rightarrow> error + bool) \<Rightarrow> pyval list \<Rightarrow> pyval list \<Rightarrow> error + bool" where
  "all_eq_seq cmp (x # xs) (y # ys) =
     (case cmp x y of
        Inl e \<Rightarrow> Inl e
      | Inr eq \<Rightarrow> if eq then all_eq_seq cmp xs ys else Inr False)"
| "all_eq_seq cmp xs ys = Inr (xs = [] \<and> ys = [])"

fun dict_eq_seq ::
  "(pyval \<Rightarrow> pyval \<Rightarrow> error + bool) \<Rightarrow> (pyval \<times> pyval) list \<Rightarrow> (pyval \<times> pyval) list
     \<Rightarrow> error + bool" where
  "dict_eq_seq cmp [] ys = Inr True"
| "dict_eq_seq cmp ((k, v) # xs) ys =
     (case dict_get ys k of
        None \<Rightarrow> Inr False
      | Some w \<Rightarrow>
          (case cmp v w of
             Inl e \<Rightarrow> Inl e
           | Inr eq \<Rightarrow> if eq then dict_eq_seq cmp xs ys else Inr False))"

fun py_eq_limited :: "nat \<Rightarrow> pyval \<Rightarrow> pyval \<Rightarrow> error + bool" where
  "py_eq_limited 0 a b = Inl RecursionError"
| "py_eq_limited (Suc n) (PList xs) (PList ys) =
     (if length xs \<noteq> length ys then Inr False else all_eq_seq (py_eq_limited n) xs ys)"
| "py_eq_limited (Suc n) (PDict xs) (PDict ys) =
     (if length xs \<noteq> length ys then Inr False else dict_eq_seq (py_eq_limited n) xs ys)"
| "py_eq_limited (Suc n) a b = Inr (key_eq a b)"

text \<open>\<^verbatim>\<open>v in els\<close> under the limit: the elements are tried from left to right.\<close>

fun py_in_limited :: "nat \<Rightarrow> pyval \<Rightarrow> pyval list \<Rightarrow> error + bool" where
  "py_in_limited n v [] = Inr False"
| "py_in_limited n v (el # els) =
     (case py_eq_limited n v el of
        Inl e \<Rightarrow> Inl e
      | Inr eq \<Rightarrow> if eq then Inr True else py_in_limited n v els)"

text \<open>How deeply lists and dicts are nested in a value; 0 for a scalar.\<close>

fun nesting :: "pyval \<Rightarrow> nat" where
  "nesting (PList xs) = Suc (foldr max (map nesting xs) 0)"
| "nesting (PDict d) = Suc (foldr max (map (\<lambda>kv. nesting (snd kv)) d) 0)"
| "nesting _ = 0"

section \<open>BaseAgent (agents/base\_agent.py)\<close>

text \<open>
  The attributes of a \<^verbatim>\<open>BaseAgent\<close> that its constructor derives from its arguments
  and from the configuration dict. The arguments stored as they are (\<^verbatim>\<open>llm\<close>,
  \<^verbatim>\<open>agent_description\<close>, \<^verbatim>\<open>agent_id\<close>, \<^verbatim>\<open>agent_memory\<close>, \<^verbatim>\<open>agent_persona\<close>,
  \<^verbatim>\<open>agent_prompt\<close>, \<^verbatim>\<open>verbose\<close>, \<^verbatim>\<open>update_strategy\<close>) and the logger are left out.
\<close>

record base_agent =
  agent_name :: string
  agent_config_dict :: "(pyval \<times> pyval) list"
  agent_tools :: "pyval list"
  agent_role :: pyval
  interactions :: pyval
  rag_enabled :: bool
  vector_store :: pyval
  capabilities :: "pyval list"
  input_schema :: pyval
  output_schema :: pyval

text \<open>
  \<^verbatim>\<open>self.agent_config_dict = dict(agent_config_dict or {})\<close>, for an argument of type
  \<^verbatim>\<open>Optional[Dict]\<close>.
\<close>

definition init_config :: "(pyval \<times> pyval) list option \<Rightarrow> (pyval \<times> pyval) list" where
  "init_config config_arg = (case config_arg of None \<Rightarrow> [] | Some d \<Rightarrow> d)"

text \<open>
  \<^verbatim>\<open>list(agent_tools) if agent_tools is not None else list(cfg.get("tools", []))\<close>
\<close>

definition init_tools :: "pyval \<Rightarrow> (pyval \<times> pyval) list \<Rightarrow> error + pyval list" where
  "init_tools tools_arg cfg =
     (if tools_arg \<noteq> PNone then py_iter tools_arg
      else py_iter (get_default cfg (PStr ''tools'') (PList [])))"

text \<open>
  \<^verbatim>\<open>agent_role if agent_role is not None else cfg.get("role") or cfg.get("agent_role")\<close>
\<close>

definition init_role :: "pyval \<Rightarrow> (pyval \<times> pyval) list \<Rightarrow> pyval" where
  "init_role role_arg cfg =
     (if role_arg \<noteq> PNone then role_arg
      else py_or (get_default cfg (PStr ''role'') PNone)
                 (get_default cfg (PStr ''agent_role'') PNone))"

text \<open>\<^verbatim>\<open>interactions if interactions is not None else cfg.get("interactions")\<close>\<close>

definition init_interactions :: "pyval \<Rightarrow> (pyval \<times> pyval) list \<Rightarrow> pyval" where
  "init_interactions inter_arg cfg =
     (if inter_arg \<noteq> PNone then inter_arg else get_default cfg (PStr ''interactions'') PNone)"

text \<open>
  \<^verbatim>\<open>
  if rag_enabled is not None and rag_enabled:
      self.rag_enabled = True
  else:
      self.rag_enabled = bool(cfg.get("rag", {}).get("enabled", cfg.get("rag_enabled", False)))
  \<close>
  The second \<^verbatim>\<open>get\<close> raises \<^verbatim>\<open>AttributeError\<close> when \<^verbatim>\<open>cfg["rag"]\<close> is not a dict.
\<close>

definition init_rag_enabled :: "pyval \<Rightarrow> (pyval \<times> pyval) list \<Rightarrow> error + bool" where
  "init_rag_enabled rag_arg cfg =
     (if rag_arg \<noteq> PNone \<and> truthy rag_arg then Inr True
      else (case method_get (get_default cfg (PStr ''rag'') (PDict [])) (PStr ''enabled'')
                   (get_default cfg (PStr ''rag_enabled'') (PBool False)) of
              Inl e \<Rightarrow> Inl e
            | Inr v \<Rightarrow> Inr (truthy v)))"

text \<open>
  \<^verbatim>\<open>vector_store if vector_store is not None
     else cfg.get("vector_store") or cfg.get("rag", {}).get("vector_store")\<close>
\<close>

definition init_vector_store :: "pyval \<Rightarrow> (pyval \<times> pyval) list \<Rightarrow> error + pyval" where
  "init_vector_store vs_arg cfg =
     (if vs_arg \<noteq> PNone then Inr vs_arg
      else if truthy (get_default cfg (PStr ''vector_store'') PNone)
           then Inr (get_default cfg (PStr ''vector_store'') PNone)
      else method_get (get_default cfg (PStr ''rag'') (PDict [])) (PStr ''vector_store'') PNone)"

text \<open>
  \<^verbatim>\<open>BaseAgent.__init__\<close>, in the order of its assignments; the first exception ends the
  construction.
\<close>

definition BaseAgent_init ::
  "string \<Rightarrow> pyval \<Rightarrow> (pyval \<times> pyval) list option \<Rightarrow> pyval \<Rightarrow> pyval \<Rightarrow> pyval \<Rightarrow> pyval
     \<Rightarrow> error + base_agent" where
  "BaseAgent_init name tools_arg agent_config role_arg rag_arg vs_arg inter_arg =
     (let cfg = init_config agent_config in
      case init_tools tools_arg cfg of
        Inl e \<Rightarrow> Inl e
      | Inr tools \<Rightarrow>
      (case init_rag_enabled rag_arg cfg of
        Inl e \<Rightarrow> Inl e
      | Inr rag \<Rightarrow>
      (case init_vector_store vs_arg cfg of
        Inl e \<Rightarrow> Inl e
      | Inr vs \<Rightarrow>
      (case py_iter (get_default cfg (PStr ''capabilities'') (PList [])) of
        Inl e \<Rightarrow> Inl e
      | Inr caps \<Rightarrow>
          Inr \<lparr> agent_name = name,
                agent_config_dict = cfg,
                agent_tools = tools,
                agent_role = init_role role_arg cfg,
                interactions = init_interactions inter_arg cfg,
                rag_enabled = rag,
                vector_store = vs,
                capabilities = caps,
                input_schema = get_default cfg (PStr ''input_schema'') PNone,
                output_schema = get_default cfg (PStr ''output_schema'') PNone \<rparr>))))"

text \<open>
  \<^verbatim>\<open>
  def can_handle(self, task):
      if not isinstance(task, dict):
          return False
      task_type = task.get("task_type")
      return bool(task_type and task_type in self.capabilities)
  \<close>
\<close>

definition can_handle :: "'z base_agent_scheme \<Rightarrow> pyval \<Rightarrow> bool" where
  "can_handle self task =
     (case task of
        PDict d \<Rightarrow>
          (let task_type = get_default d (PStr ''task_type'') PNone
           in truthy task_type \<and> py_in task_type (capabilities self))
      | _ \<Rightarrow> False)"

text \<open>
  \<open>can_handle\<close> above takes the comparisons of \<^verbatim>\<open>task_type in self.capabilities\<close> to
  complete. \<open>can_handle_limited n\<close> is the same method with the recursion limit in
  view: \<open>n\<close> nested comparisons are allowed, and the method raises when a comparison
  does.
\<close>

definition can_handle_limited :: "nat \<Rightarrow> 'z base_agent_scheme \<Rightarrow> pyval \<Rightarrow> error + bool" where
  "can_handle_limited n self task =
     (case task of
        PDict d \<Rightarrow>
          (let task_type = get_default d (PStr ''task_type'') PNone
           in if truthy task_type then py_in_limited n task_type (capabilities self)
              else Inr False)
      | _ \<Rightarrow> Inr False)"

text \<open>
  \<^verbatim>\<open>
  def validate_input(self, payload):
      if not self.input_schema:
          return True
      try:
          import jsonschema
          jsonschema.validate(instance=payload, schema=self.input_schema)
          return True
      except Exception as e:
          ...log a warning...
          return False
  \<close>
  The library \<^verbatim>\<open>jsonschema\<close> is not part of the repository: it is the parameter
  \<open>jsv\<close>, where \<open>jsv instance schema\<close> holds when the import succeeds and
  \<^verbatim>\<open>jsonschema.validate\<close> returns without an exception.
\<close>

type_synonym validator = "pyval \<Rightarrow> pyval \<Rightarrow> bool"

definition validate_input :: "validator \<Rightarrow> 'z base_agent_scheme \<Rightarrow> pyval \<Rightarrow> bool" where
  "validate_input jsv self payload =
     (if \<not> truthy (input_schema self) then True
      else jsv payload (input_schema self))"

section \<open>Agents with an execution entrypoint\<close>

text \<open>
  A registered agent is a \<^verbatim>\<open>BaseAgent\<close> with the methods the planner looks up by name:
  \<^verbatim>\<open>execute_task(task)\<close> and \<^verbatim>\<open>run_task(payload)\<close> (\<open>None\<close>: the object has no such
  attribute). An agent may keep private state and act on the outside world; \<open>'w\<close> is
  the state of everything the agents can read and change, passed into each call and
  returned by it. A call returns a result or raises.
\<close>

type_synonym 'w entrypoint = "'w \<Rightarrow> pyval \<Rightarrow> (error + pyval) \<times> 'w"

record 'w agent = base_agent +
  execute_task :: "'w entrypoint option"
  run_task :: "'w entrypoint option"

section \<open>SummarizerAgent (agents/summarizer\_agent.py)\<close>

text \<open>A list comprehension whose body may raise: the first exception ends it.\<close>

fun map_err :: "('a \<Rightarrow> error + 'b) \<Rightarrow> 'a list \<Rightarrow> error + 'b list" where
  "map_err f [] = Inr []"
| "map_err f (x # xs) =
     (case f x of
        Inl e \<Rightarrow> Inl e
      | Inr y \<Rightarrow> (case map_err f xs of Inl e \<Rightarrow> Inl e | Inr ys \<Rightarrow> Inr (y # ys)))"

text \<open>\<^verbatim>\<open>sep.join(items)\<close> accepts strings only.\<close>

fun as_str :: "pyval \<Rightarrow> error + string" where
  "as_str (PStr s) = Inr s"
| "as_str _ = Inl TypeError"

fun join_str :: "string \<Rightarrow> string list \<Rightarrow> string" where
  "join_str sep [] = []"
| "join_str sep [x] = x"
| "join_str sep (x # y # ys) = x @ sep @ join_str sep (y # ys)"

text \<open>\<^verbatim>\<open>v[:n]\<close>: strings and lists can be sliced.\<close>

fun slice_to :: "nat \<Rightarrow> pyval \<Rightarrow> error + pyval" where
  "slice_to n (PStr s) = Inr (PStr (take n s))"
| "slice_to n (PList xs) = Inr (PList (take n xs))"
| "slice_to n _ = Inl TypeError"

text \<open>\<^verbatim>\<open>{"id": d.get("id"), "title": d.get("title")}\<close>\<close>

definition source_entry :: "pyval \<Rightarrow> error + pyval" where
  "source_entry d =
     (case method_get d (PStr ''id'') PNone of
        Inl e \<Rightarrow> Inl e
      | Inr i \<Rightarrow>
          (case method_get d (PStr ''title'') PNone of
             Inl e \<Rightarrow> Inl e
           | Inr t \<Rightarrow> Inr (PDict [(PStr ''id'', i), (PStr ''title'', t)])))"

text \<open>
  \<^verbatim>\<open>summary = (combined[:800] + "...") if len(combined) > 800 else combined\<close>
\<close>

definition summarize :: "string \<Rightarrow> string" where
  "summarize combined =
     (if length combined > 800 then take 800 combined @ ''...'' else combined)"

text \<open>
  \<^verbatim>\<open>
  def execute_task(self, task):
      payload = task.get("payload", {})
      if not self.validate_input(payload):
          raise ValueError("Invalid payload for SummarizerAgent")
      documents = payload.get("documents", [])
      combined = "\n\n".join(d.get("text", "") for d in documents)
      summary = (combined[:800] + "...") if len(combined) > 800 else combined
      highlights = [d.get("text", "")[:200] for d in documents][:3]
      sources = [{"id": d.get("id"), "title": d.get("title")} for d in documents]
      return {"summary": summary, "highlights": highlights, "sources": sources}
  \<close>
  \<^verbatim>\<open>join\<close> first runs the generator to its end (a document that is not a dict raises
  \<^verbatim>\<open>AttributeError\<close>), then checks that every item is a string (\<^verbatim>\<open>TypeError\<close>).
  \<open>combined_text\<close> is the \<^verbatim>\<open>join\<close> line, \<open>highlight\<close> one element of the
  \<^verbatim>\<open>highlights\<close> comprehension, \<open>summarize_documents\<close> the body from the iteration of
  \<^verbatim>\<open>documents\<close> on.
\<close>

definition combined_text :: "pyval list \<Rightarrow> error + string" where
  "combined_text ds =
     (case map_err (\<lambda>d. method_get d (PStr ''text'') (PStr [])) ds of
        Inl e \<Rightarrow> Inl e
      | Inr texts \<Rightarrow>
          (case map_err as_str texts of
             Inl e \<Rightarrow> Inl e
           | Inr strs \<Rightarrow> Inr (join_str [CHR 0x0A, CHR 0x0A] strs)))"

definition highlight :: "pyval \<Rightarrow> error + pyval" where
  "highlight d =
     (case method_get d (PStr ''text'') (PStr []) of
        Inl e \<Rightarrow> Inl e
      | Inr t \<Rightarrow> slice_to 200 t)"

definition summarize_documents :: "pyval \<Rightarrow> error + pyval" where
  "summarize_documents documents =
     (case py_iter documents of
        Inl e \<Rightarrow> Inl e
      | Inr ds \<Rightarrow>
          (case combined_text ds of
             Inl e \<Rightarrow> Inl e
           | Inr combined \<Rightarrow>
               (case map_err highlight ds of
                  Inl e \<Rightarrow> Inl e
                | Inr hs \<Rightarrow>
                    (case map_err source_entry ds of
                       Inl e \<Rightarrow> Inl e
                     | Inr sources \<Rightarrow>
                         Inr (PDict [(PStr ''summary'', PStr (summarize combined)),
                                     (PStr ''highlights'', PList (take 3 hs)),
                                     (PStr ''sources'', PList sources)])))))"

definition SummarizerAgent_execute_task ::
  "validator \<Rightarrow> 'z base_agent_scheme \<Rightarrow> pyval \<Rightarrow> error + pyval" where
  "SummarizerAgent_execute_task jsv self task =
     (case method_get task (PStr ''payload'') (PDict []) of
        Inl e \<Rightarrow> Inl e
      | Inr payload \<Rightarrow>
          if \<not> validate_input jsv self payload
          then Inl (ValueError ''Invalid payload for SummarizerAgent'')
          else (case method_get payload (PStr ''documents'') (PList []) of
                  Inl e \<Rightarrow> Inl e
                | Inr documents \<Rightarrow> summarize_documents documents))"

text \<open>
  \<^verbatim>\<open>SummarizerAgent(...)\<close>: the base constructor, with \<^verbatim>\<open>execute_task\<close> overridden as
  above; the class has no \<^verbatim>\<open>run_task\<close>. It neither reads nor changes the world.
\<close>

definition SummarizerAgent ::
  "validator \<Rightarrow> string \<Rightarrow> pyval \<Rightarrow> (pyval \<times> pyval) list option \<Rightarrow> pyval \<Rightarrow> pyval \<Rightarrow> pyval
     \<Rightarrow> pyval \<Rightarrow> error + 'w agent" where
  "SummarizerAgent jsv name tools_arg agent_config role_arg rag_arg vs_arg inter_arg =
     (case BaseAgent_init name tools_arg (Some (init_config agent_config))
             role_arg rag_arg vs_arg inter_arg of
        Inl e \<Rightarrow> Inl e
      | Inr base \<Rightarrow>
          Inr (base_agent.extend base
                 (agent.fields
                    (Some (\<lambda>w task. (SummarizerAgent_execute_task jsv base task, w)))
                    None)))"

section \<open>PlannerAgent (agents/planner\_agent.py)\<close>

text \<open>
  \<^verbatim>\<open>
  def decompose_goal(self, goal):
      return [{"task_id": "t1", "task_type": "summarize_text",
               "payload": {"documents": [], "summary_length": "short"},
               "dependencies": [], "priority": 50}]
  \<close>
\<close>

definition decompose_goal :: "string \<Rightarrow> pyval list" where
  "decompose_goal goal =
     [PDict [(PStr ''task_id'', PStr ''t1''),
             (PStr ''task_type'', PStr ''summarize_text''),
             (PStr ''payload'',
                PDict [(PStr ''documents'', PList []),
                       (PStr ''summary_length'', PStr ''short'')]),
             (PStr ''dependencies'', PList []),
             (PStr ''priority'', PInt 50)]]"

text \<open>
  \<^verbatim>\<open>
  def select_agent_for_task(self, task):
      candidates = [a for a in self.registry if a.can_handle(task)]
      if not candidates:
          return None
      payload = task.get("payload", {})
      valid_candidates = [a for a in candidates if a.validate_input(payload)]
      if not valid_candidates:
          return None
      return valid_candidates[0]
  \<close>
  The planner's registry is the parameter \<open>registry\<close>.
\<close>

definition select_agent_for_task ::
  "validator \<Rightarrow> 'w agent list \<Rightarrow> pyval \<Rightarrow> error + 'w agent option" where
  "select_agent_for_task jsv registry task =
     (let candidates = filter (\<lambda>a. can_handle a task) registry in
      if candidates = [] then Inr None
      else
        (case method_get task (PStr ''payload'') (PDict []) of
           Inl e \<Rightarrow> Inl e
         | Inr payload \<Rightarrow>
             (case filter (\<lambda>a. validate_input jsv a payload) candidates of
                [] \<Rightarrow> Inr None
              | a # _ \<Rightarrow> Inr (Some a))))"

text \<open>
  The first half of \<^verbatim>\<open>dispatch_task\<close>:
  \<^verbatim>\<open>
  if hasattr(agent, "execute_task"):
      result = agent.execute_task(task)
  elif hasattr(agent, "run_task"):
      result = agent.run_task(task.get("payload", {}))
  else:
      raise RuntimeError(f"Agent {agent.agent_name} has no execution entrypoint.")
  \<close>
\<close>

definition call_entrypoint :: "'w agent \<Rightarrow> pyval \<Rightarrow> 'w \<Rightarrow> (error + pyval) \<times> 'w" where
  "call_entrypoint agent task w =
     (case execute_task agent of
        Some f \<Rightarrow> f w task
      | None \<Rightarrow>
          (case run_task agent of
             Some g \<Rightarrow>
               (case method_get task (PStr ''payload'') (PDict []) of
                  Inl e \<Rightarrow> (Inl e, w)
                | Inr payload \<Rightarrow> g w payload)
           | None \<Rightarrow> (Inl (RuntimeError (NoExecutionEntrypoint (agent_name agent))), w)))"

text \<open>
  The second half:
  \<^verbatim>\<open>
  if getattr(agent, "output_schema", None):
      try:
          import jsonschema
          jsonschema.validate(instance=result, schema=agent.output_schema)
      except Exception as e:
          raise RuntimeError(f"Output validation failed: {e}")
  return result
  \<close>
\<close>

definition dispatch_task ::
  "validator \<Rightarrow> 'w agent \<Rightarrow> pyval \<Rightarrow> 'w \<Rightarrow> (error + pyval) \<times> 'w" where
  "dispatch_task jsv agent task w =
     (case call_entrypoint agent task w of
        (Inl e, w') \<Rightarrow> (Inl e, w')
      | (Inr result, w') \<Rightarrow>
          if truthy (output_schema agent)
          then (if jsv result (output_schema agent) then (Inr result, w')
                else (Inl (RuntimeError OutputValidationFailed), w'))
          else (Inr result, w'))"

text \<open>
  The loop of \<^verbatim>\<open>plan_and_execute\<close> over the remaining tasks, with the \<^verbatim>\<open>results\<close> dict
  and the world so far:
  \<^verbatim>\<open>
  for task in tasks:
      agent = self.select_agent_for_task(task)
      if not agent:
          raise RuntimeError(f"No agent available to handle task {task['task_id']}")
      res = self.dispatch_task(agent, task)
      results[task["task_id"]] = res
  return results
  \<close>
  The third component is a record of the calls of \<^verbatim>\<open>dispatch_task\<close> made so far, the
  agent and the task of each, in the order of the calls. The source keeps no such
  record; it is here to state which calls a run makes.
\<close>

type_synonym 'w outcome = "(error + (pyval \<times> pyval) list) \<times> 'w \<times> ('w agent \<times> pyval) list"

fun execute_tasks ::
  "validator \<Rightarrow> 'w agent list \<Rightarrow> pyval list \<Rightarrow> (pyval \<times> pyval) list \<Rightarrow> 'w
     \<Rightarrow> ('w agent \<times> pyval) list \<Rightarrow> 'w outcome" where
  "execute_tasks jsv registry [] results w calls = (Inr results, w, calls)"
| "execute_tasks jsv registry (task # tasks) results w calls =
     (case select_agent_for_task jsv registry task of
        Inl e \<Rightarrow> (Inl e, w, calls)
      | Inr None \<Rightarrow>
          (case subscript task (PStr ''task_id'') of
             Inl e \<Rightarrow> (Inl e, w, calls)
           | Inr tid \<Rightarrow> (Inl (RuntimeError (NoAgentAvailable tid)), w, calls))
      | Inr (Some agent) \<Rightarrow>
          (case dispatch_task jsv agent task w of
             (Inl e, w') \<Rightarrow> (Inl e, w', calls @ [(agent, task)])
           | (Inr res, w') \<Rightarrow>
               (case subscript task (PStr ''task_id'') of
                  Inl e \<Rightarrow> (Inl e, w', calls @ [(agent, task)])
                | Inr tid \<Rightarrow>
                    (case dict_setitem results tid res of
                       Inl e \<Rightarrow> (Inl e, w', calls @ [(agent, task)])
                     | Inr results' \<Rightarrow>
                         execute_tasks jsv registry tasks results' w'
                           (calls @ [(agent, task)])))))"

text \<open>
  \<^verbatim>\<open>
  def plan_and_execute(self, goal):
      tasks = self.decompose_goal(goal)
      results = {}
      for task in tasks: ...
      return results
  \<close>
  \<open>plan_run\<close> is the run with its record of calls; \<open>plan_and_execute\<close> is what the
  caller gets: the results dict or the exception, and the world after the run.
\<close>

definition plan_run :: "validator \<Rightarrow> 'w agent list \<Rightarrow> string \<Rightarrow> 'w \<Rightarrow> 'w outcome" where
  "plan_run jsv registry goal w = execute_tasks jsv registry (decompose_goal goal) [] w []"

definition plan_and_execute ::
  "validator \<Rightarrow> 'w agent list \<Rightarrow> string \<Rightarrow> 'w \<Rightarrow> (error + pyval) \<times> 'w" where
  "plan_and_execute jsv registry goal w =
     (case plan_run jsv registry goal w of
        (Inl e, w', calls) \<Rightarrow> (Inl e, w')
      | (Inr results, w', calls) \<Rightarrow> (Inr (PDict results), w'))"

definition plan_calls ::
  "validator \<Rightarrow> 'w agent list \<Rightarrow> string \<Rightarrow> 'w \<Rightarrow> ('w agent \<times> pyval) list" where
  "plan_calls jsv registry goal w = snd (snd (plan_run jsv registry goal w))"

section \<open>Properties stated about the code, and examples\<close>

text \<open>
  An agent is deterministic when the result of its \<^verbatim>\<open>execute_task\<close> depends on the
  task alone, not on the state of the world in which it is called; for an agent
  without \<^verbatim>\<open>execute_task\<close>, the same of the \<^verbatim>\<open>run_task\<close> that is called in its place.
\<close>

definition deterministic_agent :: "'w agent \<Rightarrow> bool" where
  "deterministic_agent a =
     (case execute_task a of
        Some f \<Rightarrow> \<forall>w1 w2 t. fst (f w1 t) = fst (f w2 t)
      | None \<Rightarrow>
          (case run_task a of
             Some g \<Rightarrow> \<forall>w1 w2 p. fst (g w1 p) = fst (g w2 p)
           | None \<Rightarrow> True))"


definition has_key :: "(pyval \<times> pyval) list \<Rightarrow> string \<Rightarrow> bool" where
  "has_key d k = (case dict_get d (PStr k) of None \<Rightarrow> False | Some v \<Rightarrow> True)"

text \<open>
  The plan result as the specification words it: a returned mapping in which the failed
  task's id has an entry that carries the error.
\<close>

definition records_task_error :: "error + pyval \<Rightarrow> pyval \<Rightarrow> bool" where
  "records_task_error out tid =
     (case out of
        Inr (PDict d) \<Rightarrow>
          (case dict_get d tid of
             Some (PDict entry) \<Rightarrow> has_key entry ''error''
           | _ \<Rightarrow> False)
      | _ \<Rightarrow> False)"

text \<open>
  The dispatcher not crashing, as the specification words it: \<^verbatim>\<open>plan_and_execute\<close>
  returns a plan result instead of ending in an exception.
\<close>

definition dispatcher_survives :: "error + pyval \<Rightarrow> bool" where
  "dispatcher_survives out = (case out of Inl e \<Rightarrow> False | Inr res \<Rightarrow> True)"

text \<open>
  An entry of the plan result as the specification words it: status, result or error,
  and the number of attempts.
\<close>

definition claimed_task_entry :: "pyval \<Rightarrow> bool" where
  "claimed_task_entry e =
     (case e of
        PDict entry \<Rightarrow>
          has_key entry ''status'' \<and>
          (if has_key entry ''result'' then True else has_key entry ''error'') \<and>
          has_key entry ''attempts''
      | _ \<Rightarrow> False)"

text \<open>
  A document the summarizer can read: a dict whose \<^verbatim>\<open>text\<close>, where present, is a
  string; and the text it reads from it.
\<close>

definition is_text_document :: "pyval \<Rightarrow> bool" where
  "is_text_document d =
     (case d of
        PDict dd \<Rightarrow>
          (case get_default dd (PStr ''text'') (PStr []) of PStr s \<Rightarrow> True | _ \<Rightarrow> False)
      | _ \<Rightarrow> False)"

definition document_text :: "pyval \<Rightarrow> string" where
  "document_text d =
     (case d of
        PDict dd \<Rightarrow>
          (case get_default dd (PStr ''text'') (PStr []) of PStr s \<Rightarrow> s | _ \<Rightarrow> [])
      | _ \<Rightarrow> [])"

subsection \<open>Two validators\<close>

text \<open>
  Where \<^verbatim>\<open>jsonschema\<close> is not installed, the import inside the \<^verbatim>\<open>try\<close> raises and
  every validation against a schema fails.
\<close>

definition no_jsonschema :: validator where
  "no_jsonschema instance schema = False"

text \<open>
  A validator that checks the keyword \<^verbatim>\<open>required\<close> only: the instance is a dict that
  has every key the schema requires.
\<close>

definition required_keys :: validator where
  "required_keys instance schema =
     (case instance of
        PDict d \<Rightarrow>
          (case schema of
             PDict sd \<Rightarrow>
               (case dict_get sd (PStr ''required'') of
                  Some (PList ks) \<Rightarrow>
                    list_all (\<lambda>k. case dict_get d k of None \<Rightarrow> False | Some v \<Rightarrow> True) ks
                | _ \<Rightarrow> True)
           | _ \<Rightarrow> True)
      | _ \<Rightarrow> False)"

subsection \<open>Example agents and tasks\<close>

text \<open>A summarizer configured with its capability only.\<close>

definition plain_summarizer :: "validator \<Rightarrow> 'w agent" where
  "plain_summarizer jsv =
     projr (SummarizerAgent jsv ''Summ'' PNone
              (Some [(PStr ''capabilities'', PList [PStr ''summarize_text''])])
              PNone (PBool False) PNone PNone)"

text \<open>The summarizer of tests/test\_agents\_validation.py.\<close>

definition test_config :: "(pyval \<times> pyval) list" where
  "test_config =
     [(PStr ''capabilities'', PList [PStr ''summarize_text'']),
      (PStr ''input_schema'',
         PDict [(PStr ''type'', PStr ''object''),
                (PStr ''required'', PList [PStr ''documents'']),
                (PStr ''properties'',
                   PDict [(PStr ''documents'', PDict [(PStr ''type'', PStr ''array'')])])]),
      (PStr ''output_schema'',
         PDict [(PStr ''type'', PStr ''object''),
                (PStr ''required'', PList [PStr ''summary'']),
                (PStr ''properties'',
                   PDict [(PStr ''summary'', PDict [(PStr ''type'', PStr ''string'')])])])]"

definition test_summarizer :: "validator \<Rightarrow> 'w agent" where
  "test_summarizer jsv =
     projr (SummarizerAgent jsv ''Summ'' PNone (Some test_config)
              PNone (PBool False) PNone PNone)"

text \<open>
  A summarizer given the output schema of the helper agent of planner\_agent.py, which
  requires the key \<^verbatim>\<open>answer\<close>.
\<close>

definition answer_config :: "(pyval \<times> pyval) list" where
  "answer_config =
     [(PStr ''capabilities'', PList [PStr ''summarize_text'']),
      (PStr ''output_schema'',
         PDict [(PStr ''type'', PStr ''object''),
                (PStr ''required'', PList [PStr ''answer''])])]"

definition answer_summarizer :: "validator \<Rightarrow> 'w agent" where
  "answer_summarizer jsv =
     projr (SummarizerAgent jsv ''Helper'' PNone (Some answer_config)
              PNone (PBool False) PNone PNone)"


text \<open>A value wrapped in \<open>n\<close> one-element lists: \<^verbatim>\<open>[[...[v]...]]\<close>.\<close>

fun nest :: "nat \<Rightarrow> pyval \<Rightarrow> pyval" where
  "nest 0 v = v"
| "nest (Suc n) v = PList [nest n v]"

text \<open>An agent whose only capability is the number 1 wrapped in 1000 lists.\<close>

definition deep_capability_agent :: "validator \<Rightarrow> 'w agent" where
  "deep_capability_agent jsv =
     projr (SummarizerAgent jsv ''Deep'' PNone
              (Some [(PStr ''capabilities'', PList [nest 1000 (PInt 1)])])
              PNone (PBool False) PNone PNone)"

text \<open>A task no summarizer is capable of.\<close>

definition orphan_task :: pyval where
  "orphan_task =
     PDict [(PStr ''task_id'', PStr ''t0''), (PStr ''task_type'', PStr ''translate_text'')]"

text \<open>The documents of the tests: \<^verbatim>\<open>make_doc(1)\<close> and \<^verbatim>\<open>make_doc(2)\<close>.\<close>

definition doc1 :: pyval where
  "doc1 = PDict [(PStr ''id'', PStr ''d1''), (PStr ''title'', PStr ''Doc 1''),
                 (PStr ''text'', PStr ''This is the content of document 1.'')]"

definition doc2 :: pyval where
  "doc2 = PDict [(PStr ''id'', PStr ''d2''), (PStr ''title'', PStr ''Doc 2''),
                 (PStr ''text'', PStr ''This is the content of document 2.'')]"

text \<open>Configurations that switch retrieval on, under the nested key and under the alias.\<close>

definition rag_config :: "(pyval \<times> pyval) list" where
  "rag_config =
     [(PStr ''rag'', PDict [(PStr ''enabled'', PBool True),
                            (PStr ''vector_store'', PStr ''pinecone'')])]"

definition rag_alias_config :: "(pyval \<times> pyval) list" where
  "rag_alias_config = [(PStr ''rag_enabled'', PBool True)]"

text \<open>The agents \<^verbatim>\<open>BaseAgent.__init__\<close> builds from these two configurations.\<close>

definition rag_agent :: base_agent where
  "rag_agent =
     \<lparr> agent_name = ''Agent'', agent_config_dict = rag_config, agent_tools = [],
       agent_role = PNone, interactions = PNone, rag_enabled = True,
       vector_store = PStr ''pinecone'', capabilities = [], input_schema = PNone,
       output_schema = PNone \<rparr>"

definition rag_alias_agent :: base_agent where
  "rag_alias_agent =
     \<lparr> agent_name = ''Agent'', agent_config_dict = rag_alias_config, agent_tools = [],
       agent_role = PNone, interactions = PNone, rag_enabled = True,
       vector_store = PNone, capabilities = [], input_schema = PNone,
       output_schema = PNone \<rparr>"

text \<open>The entry of \<^verbatim>\<open>sources\<close> the summarizer builds from a document that is a dict.\<close>

definition document_source :: "pyval \<Rightarrow> pyval" where
  "document_source d =
     (case d of
        PDict dd \<Rightarrow>
          PDict [(PStr ''id'', get_default dd (PStr ''id'') PNone),
                 (PStr ''title'', get_default dd (PStr ''title'') PNone)]
      | _ \<Rightarrow> PNone)"

text \<open>The task of the tests, and a task whose only document is the number 1.\<close>

definition test_task :: "(pyval \<times> pyval) list" where
  "test_task =
     [(PStr ''task_id'', PStr ''t1''), (PStr ''task_type'', PStr ''summarize_text''),
      (PStr ''payload'', PDict [(PStr ''documents'', PList [doc1, doc2])])]"

definition number_task :: "(pyval \<times> pyval) list" where
  "number_task =
     [(PStr ''task_id'', PStr ''t1''), (PStr ''task_type'', PStr ''summarize_text''),
      (PStr ''payload'', PDict [(PStr ''documents'', PList [PInt 1])])]"

section \<open>Auxiliary facts\<close>

lemmas init_defs =
  BaseAgent_init_def init_config_def init_tools_def init_rag_enabled_def
  init_vector_store_def init_role_def init_interactions_def get_default_def py_or_def

lemmas run_defs =
  select_agent_for_task_def can_handle_def validate_input_def get_default_def py_in_def
  dispatch_task_def SummarizerAgent_execute_task_def summarize_documents_def combined_text_def
  highlight_def source_entry_def summarize_def dict_setitem_def

lemma SummarizerAgent_self:
  assumes "input_schema a = input_schema b"
  shows "SummarizerAgent_execute_task jsv a task = SummarizerAgent_execute_task jsv b task"
proof -
  from assms have "validate_input jsv a = validate_input jsv b"
    by (simp add: validate_input_def fun_eq_iff)
  then show ?thesis by (simp add: SummarizerAgent_execute_task_def split: sum.splits)
qed

lemma SummarizerAgent_built:
  assumes "SummarizerAgent jsv n t cfg r rg vs i = Inr a"
  shows "\<exists>base. a = base_agent.extend base
              (agent.fields (Some (\<lambda>w task. (SummarizerAgent_execute_task jsv base task, w))) None)"
  using assms by (auto simp add: SummarizerAgent_def split: sum.splits)

lemma SummarizerAgent_entrypoint:
  assumes "SummarizerAgent jsv n t cfg r rg vs i = Inr a"
  shows "call_entrypoint a task w = (SummarizerAgent_execute_task jsv a task, w)"
proof -
  from SummarizerAgent_built [OF assms] obtain base where
    a: "a = base_agent.extend base
              (agent.fields (Some (\<lambda>w task. (SummarizerAgent_execute_task jsv base task, w))) None)"
    by blast
  have "input_schema base = input_schema a"
    by (simp add: a base_agent.defs agent.defs)
  from SummarizerAgent_self [OF this, of jsv task]
  show ?thesis by (simp add: call_entrypoint_def a base_agent.defs agent.defs)
qed

lemma SummarizerAgent_deterministic:
  assumes "SummarizerAgent jsv n t cfg r rg vs i = Inr a"
  shows "deterministic_agent a"
proof -
  from SummarizerAgent_built [OF assms] obtain base where
    a: "a = base_agent.extend base
              (agent.fields (Some (\<lambda>w task. (SummarizerAgent_execute_task jsv base task, w))) None)"
    by blast
  show ?thesis by (simp add: deterministic_agent_def a base_agent.defs agent.defs)
qed

lemma plain_summarizer_built:
  "SummarizerAgent no_jsonschema ''Summ'' PNone
     (Some [(PStr ''capabilities'', PList [PStr ''summarize_text''])])
     PNone (PBool False) PNone PNone = Inr (plain_summarizer no_jsonschema)"
  by (simp add: plain_summarizer_def SummarizerAgent_def init_defs)

lemma plain_summarizer_fields:
  "capabilities (plain_summarizer no_jsonschema :: 'w agent) = [PStr ''summarize_text'']"
  "input_schema (plain_summarizer no_jsonschema :: 'w agent) = PNone"
  "output_schema (plain_summarizer no_jsonschema :: 'w agent) = PNone"
  by (simp_all add: plain_summarizer_def SummarizerAgent_def init_defs base_agent.defs agent.defs)

lemmas plain_summarizer_call = SummarizerAgent_entrypoint [OF plain_summarizer_built]

lemma test_summarizer_built:
  "SummarizerAgent jsv ''Summ'' PNone (Some test_config) PNone (PBool False) PNone PNone
     = Inr (test_summarizer jsv)"
  by (simp add: test_summarizer_def test_config_def SummarizerAgent_def init_defs)

lemma test_summarizer_fields:
  "capabilities (test_summarizer jsv :: 'w agent) = [PStr ''summarize_text'']"
  "input_schema (test_summarizer jsv :: 'w agent) =
     PDict [(PStr ''type'', PStr ''object''),
            (PStr ''required'', PList [PStr ''documents'']),
            (PStr ''properties'',
               PDict [(PStr ''documents'', PDict [(PStr ''type'', PStr ''array'')])])]"
  "output_schema (test_summarizer jsv :: 'w agent) =
     PDict [(PStr ''type'', PStr ''object''),
            (PStr ''required'', PList [PStr ''summary'']),
            (PStr ''properties'',
               PDict [(PStr ''summary'', PDict [(PStr ''type'', PStr ''string'')])])]"
  by (simp_all add: test_summarizer_def test_config_def SummarizerAgent_def init_defs
        base_agent.defs agent.defs)

lemmas test_summarizer_call = SummarizerAgent_entrypoint [OF test_summarizer_built]

lemma answer_summarizer_built:
  "SummarizerAgent jsv ''Helper'' PNone (Some answer_config) PNone (PBool False) PNone PNone
     = Inr (answer_summarizer jsv)"
  by (simp add: answer_summarizer_def answer_config_def SummarizerAgent_def init_defs)

lemma answer_summarizer_fields:
  "capabilities (answer_summarizer jsv :: 'w agent) = [PStr ''summarize_text'']"
  "input_schema (answer_summarizer jsv :: 'w agent) = PNone"
  "output_schema (answer_summarizer jsv :: 'w agent) =
     PDict [(PStr ''type'', PStr ''object''), (PStr ''required'', PList [PStr ''answer''])]"
  by (simp_all add: answer_summarizer_def answer_config_def SummarizerAgent_def init_defs
        base_agent.defs agent.defs)

lemmas answer_summarizer_call = SummarizerAgent_entrypoint [OF answer_summarizer_built]


lemma plain_plan_run:
  "plan_run no_jsonschema [plain_summarizer no_jsonschema] goal (w :: 'w) =
     (Inr [(PStr ''t1'',
            PDict [(PStr ''summary'', PStr []),
                   (PStr ''highlights'', PList []),
                   (PStr ''sources'', PList [])])],
      w,
      [(plain_summarizer no_jsonschema, hd (decompose_goal goal))])"
  by (simp add: plan_run_def decompose_goal_def run_defs plain_summarizer_fields
        plain_summarizer_call)

lemma select_agent_member:
  assumes "select_agent_for_task jsv registry task = Inr (Some a)"
  shows "a \<in> set registry"
proof -
  from assms obtain p rest where
    "filter (\<lambda>a. validate_input jsv a p) (filter (\<lambda>a. can_handle a task) registry) = a # rest"
    by (auto simp add: select_agent_for_task_def Let_def split: if_splits sum.splits list.splits)
  then have "a \<in> set (filter (\<lambda>a. validate_input jsv a p)
                        (filter (\<lambda>a. can_handle a task) registry))"
    by simp
  then show ?thesis by simp
qed

lemma call_entrypoint_deterministic:
  assumes "deterministic_agent a"
  shows "fst (call_entrypoint a t w1) = fst (call_entrypoint a t w2)"
  using assms
  by (auto simp add: deterministic_agent_def call_entrypoint_def split: option.splits sum.splits)

lemma dispatch_task_deterministic:
  assumes "deterministic_agent a"
  shows "fst (dispatch_task jsv a t w1) = fst (dispatch_task jsv a t w2)"
proof -
  obtain r1 v1 where c1: "call_entrypoint a t w1 = (r1, v1)" by (cases "call_entrypoint a t w1")
  obtain r2 v2 where c2: "call_entrypoint a t w2 = (r2, v2)" by (cases "call_entrypoint a t w2")
  from call_entrypoint_deterministic [OF assms, of t w1 w2] c1 c2 have "r1 = r2" by simp
  with c1 c2 show ?thesis
    by (simp add: dispatch_task_def split: sum.splits)
qed

lemma execute_tasks_deterministic:
  assumes "list_all deterministic_agent registry"
  shows "fst (execute_tasks jsv registry tasks results w1 calls) =
           fst (execute_tasks jsv registry tasks results w2 calls) \<and>
         snd (snd (execute_tasks jsv registry tasks results w1 calls)) =
           snd (snd (execute_tasks jsv registry tasks results w2 calls))"
proof (induction tasks arbitrary: results w1 w2 calls)
  case Nil
  show ?case by simp
next
  case (Cons task tasks)
  show ?case
  proof (cases "select_agent_for_task jsv registry task")
    case (Inl e)
    then show ?thesis by simp
  next
    case (Inr sel)
    show ?thesis
    proof (cases sel)
      case None
      with Inr show ?thesis by (simp split: sum.splits)
    next
      case (Some a)
      from select_agent_member Inr Some have "a \<in> set registry" by blast
      with assms have det: "deterministic_agent a" by (simp add: list_all_iff)
      obtain r1 v1 where d1: "dispatch_task jsv a task w1 = (r1, v1)"
        by (cases "dispatch_task jsv a task w1")
      obtain r2 v2 where d2: "dispatch_task jsv a task w2 = (r2, v2)"
        by (cases "dispatch_task jsv a task w2")
      from dispatch_task_deterministic [OF det, of jsv task w1 w2] d1 d2 have "r2 = r1" by simp
      with d2 have d2': "dispatch_task jsv a task w2 = (r1, v2)" by simp
      show ?thesis
      proof (cases r1)
        case (Inl e)
        with Inr Some d1 d2' show ?thesis by simp
      next
        case res: (Inr res)
        show ?thesis
        proof (cases "subscript task (PStr ''task_id'')")
          case (Inl e)
          with Inr Some d1 d2' res show ?thesis by simp
        next
          case tid: (Inr tid)
          show ?thesis
          proof (cases "dict_setitem results tid res")
            case (Inl e)
            with Inr Some d1 d2' res tid show ?thesis by simp
          next
            case upd: (Inr results')
            from Cons.IH [of results' v1 "calls @ [(a, task)]" v2]
            show ?thesis using Inr Some d1 d2' res tid upd by simp
          qed
        qed
      qed
    qed
  qed
qed

lemma map_err_Inr:
  assumes "\<And>x. x \<in> set xs \<Longrightarrow> f x = Inr (g x)"
  shows "map_err f xs = Inr (map g xs)"
  using assms by (induction xs) simp_all

lemma map_err_as_str: "map_err as_str (map (\<lambda>d. PStr (h d)) ds) = Inr (map h ds)"
  by (induction ds) simp_all

lemma text_document_get:
  assumes "is_text_document d"
  shows "method_get d (PStr ''text'') (PStr []) = Inr (PStr (document_text d))"
  using assms
  by (auto simp add: is_text_document_def document_text_def split: pyval.splits)

lemma combined_text_documents:
  assumes "list_all is_text_document ds"
  shows "combined_text ds = Inr (join_str [CHR 0x0A, CHR 0x0A] (map document_text ds))"
proof -
  have "map_err (\<lambda>d. method_get d (PStr ''text'') (PStr [])) ds
          = Inr (map (\<lambda>d. PStr (document_text d)) ds)"
    using assms by (intro map_err_Inr) (simp add: list_all_iff text_document_get)
  then show ?thesis by (simp add: combined_text_def map_err_as_str)
qed

lemma highlight_documents:
  assumes "list_all is_text_document ds"
  shows "map_err highlight ds = Inr (map (\<lambda>d. PStr (take 200 (document_text d))) ds)"
  using assms
  by (intro map_err_Inr) (simp add: list_all_iff text_document_get highlight_def)

lemma source_documents:
  assumes "list_all is_text_document ds"
  shows "map_err source_entry ds = Inr (map document_source ds)"
proof (rule map_err_Inr)
  fix d assume "d \<in> set ds"
  with assms have "is_text_document d" by (simp add: list_all_iff)
  then show "source_entry d = Inr (document_source d)"
    by (cases d) (simp_all add: is_text_document_def source_entry_def document_source_def)
qed

lemma summarize_length: "length (summarize combined) \<le> 803"
  by (simp add: summarize_def)

lemma foldr_max_ge: "n \<in> set ns \<Longrightarrow> n \<le> foldr max ns (0 :: nat)"
  by (induction ns) auto

lemma nesting_list_elem: "x \<in> set xs \<Longrightarrow> nesting x < nesting (PList xs)"
  using foldr_max_ge [of "nesting x" "map nesting xs"] by (simp add: less_Suc_eq_le)

lemma nesting_dict_value: "kv \<in> set d \<Longrightarrow> nesting (snd kv) < nesting (PDict d)"
  using foldr_max_ge [of "nesting (snd kv)" "map (\<lambda>kv. nesting (snd kv)) d"]
  by (auto simp add: less_Suc_eq_le)

lemma dict_get_value: "dict_get d k = Some w \<Longrightarrow> \<exists>k'. (k', w) \<in> set d"
  by (induction d) (auto split: if_splits)

lemma all_eq_seq_complete:
  assumes "length xs = length ys"
    and "\<And>x y. x \<in> set xs \<Longrightarrow> y \<in> set ys \<Longrightarrow> cmp x y = Inr (p x y)"
  shows "all_eq_seq cmp xs ys = Inr (list_all2 p xs ys)"
  using assms by (induction xs ys rule: list_induct2) simp_all

lemma dict_eq_seq_complete:
  assumes "\<And>kv w. kv \<in> set xs \<Longrightarrow> dict_get ys (fst kv) = Some w
             \<Longrightarrow> cmp (snd kv) w = Inr (p (snd kv) w)"
  shows "dict_eq_seq cmp xs ys =
           Inr (list_all (\<lambda>kv. case dict_get ys (fst kv) of
                                 None \<Rightarrow> False
                               | Some w \<Rightarrow> p (snd kv) w) xs)"
  using assms
proof (induction xs)
  case Nil
  show ?case by simp
next
  case (Cons kv xs)
  obtain k v where kv: "kv = (k, v)" by (cases kv)
  show ?case
  proof (cases "dict_get ys k")
    case None
    then show ?thesis by (simp add: kv)
  next
    case (Some w)
    from Cons.prems [of kv w] Some have c: "cmp v w = Inr (p v w)" by (simp add: kv)
    have "dict_eq_seq cmp xs ys =
           Inr (list_all (\<lambda>kv. case dict_get ys (fst kv) of
                                 None \<Rightarrow> False
                               | Some w \<Rightarrow> p (snd kv) w) xs)"
      by (rule Cons.IH) (simp add: Cons.prems)
    with Some c show ?thesis by (simp add: kv)
  qed
qed

lemma py_eq_limited_complete:
  assumes "nesting a < n \<or> nesting b < n"
  shows "py_eq_limited n a b = Inr (py_eq a b)"
  using assms
proof (induction n arbitrary: a b)
  case 0
  then show ?case by simp
next
  case (Suc n)
  show ?case
  proof (cases a)
    case (PList xs)
    show ?thesis
    proof (cases b)
      case ys: (PList ys)
      show ?thesis
      proof (cases "length xs = length ys")
        case False
        then show ?thesis by (auto simp add: PList ys dest: list_all2_lengthD)
      next
        case True
        have "\<And>x y. x \<in> set xs \<Longrightarrow> y \<in> set ys \<Longrightarrow> py_eq_limited n x y = Inr (py_eq x y)"
        proof -
          fix x y assume x: "x \<in> set xs" and y: "y \<in> set ys"
          from Suc.prems nesting_list_elem [OF x] nesting_list_elem [OF y]
          have "nesting x < n \<or> nesting y < n" by (auto simp add: PList ys)
          then show "py_eq_limited n x y = Inr (py_eq x y)" by (rule Suc.IH)
        qed
        from all_eq_seq_complete [OF True this] True show ?thesis by (simp add: PList ys)
      qed
    qed (simp_all add: PList)
  next
    case (PDict xs)
    show ?thesis
    proof (cases b)
      case ys: (PDict ys)
      show ?thesis
      proof (cases "length xs = length ys")
        case False
        then show ?thesis by (simp add: PDict ys)
      next
        case True
        have "\<And>kv w. kv \<in> set xs \<Longrightarrow> dict_get ys (fst kv) = Some w
                 \<Longrightarrow> py_eq_limited n (snd kv) w = Inr (py_eq (snd kv) w)"
        proof -
          fix kv w assume kv: "kv \<in> set xs" and w: "dict_get ys (fst kv) = Some w"
          from dict_get_value [OF w] obtain k' where "(k', w) \<in> set ys" by blast
          from nesting_dict_value [OF this] have "nesting w < nesting (PDict ys)" by simp
          with Suc.prems nesting_dict_value [OF kv]
          have "nesting (snd kv) < n \<or> nesting w < n" by (auto simp add: PDict ys)
          then show "py_eq_limited n (snd kv) w = Inr (py_eq (snd kv) w)" by (rule Suc.IH)
        qed
        from dict_eq_seq_complete [of xs ys "py_eq_limited n" py_eq, OF this] True
        show ?thesis by (simp add: PDict ys)
      qed
    qed (simp_all add: PDict)
  qed (cases b; simp)+
qed

lemma py_in_limited_complete:
  assumes "nesting v < n"
  shows "py_in_limited n v els = Inr (py_in v els)"
  using assms by (induction els) (simp_all add: py_in_def py_eq_limited_complete)

lemma py_eq_limited_nest: "py_eq_limited n (nest n a) (nest n b) = Inl RecursionError"
  by (induction n) simp_all

lemma all_eq_seq_sound:
  assumes "length xs = length ys"
    and "\<And>x y r. x \<in> set xs \<Longrightarrow> y \<in> set ys \<Longrightarrow> cmp x y = Inr r \<Longrightarrow> r = p x y"
    and "all_eq_seq cmp xs ys = Inr r"
  shows "r = list_all2 p xs ys"
  using assms
proof (induction xs ys rule: list_induct2)
  case Nil
  then show ?case by simp
next
  case (Cons x xs y ys)
  from Cons.prems(2) obtain q where q: "cmp x y = Inr q"
    by (cases "cmp x y") simp_all
  from Cons.prems(1) [OF _ _ q] have qp: "q = p x y" by simp
  show ?case
  proof (cases q)
    case True
    with q Cons.prems(2) have "all_eq_seq cmp xs ys = Inr r" by simp
    with Cons.IH Cons.prems(1) have "r = list_all2 p xs ys" by simp
    with True qp show ?thesis by simp
  next
    case False
    with q Cons.prems(2) qp show ?thesis by simp
  qed
qed

lemma dict_eq_seq_sound:
  assumes "\<And>kv w r. kv \<in> set xs \<Longrightarrow> dict_get ys (fst kv) = Some w
             \<Longrightarrow> cmp (snd kv) w = Inr r \<Longrightarrow> r = p (snd kv) w"
    and "dict_eq_seq cmp xs ys = Inr r"
  shows "r = list_all (\<lambda>kv. case dict_get ys (fst kv) of
                               None \<Rightarrow> False
                             | Some w \<Rightarrow> p (snd kv) w) xs"
  using assms
proof (induction xs)
  case Nil
  then show ?case by simp
next
  case (Cons kv xs)
  obtain k v where kv: "kv = (k, v)" by (cases kv)
  show ?case
  proof (cases "dict_get ys k")
    case None
    with Cons.prems(2) show ?thesis by (simp add: kv)
  next
    case (Some w)
    with Cons.prems(2) obtain q where q: "cmp v w = Inr q"
      by (cases "cmp v w") (simp_all add: kv)
    from Cons.prems(1) [of kv w q] Some q have qp: "q = p v w" by (simp add: kv)
    show ?thesis
    proof (cases q)
      case True
      with q Some Cons.prems(2) have "dict_eq_seq cmp xs ys = Inr r" by (simp add: kv)
      with Cons.IH Cons.prems(1)
      have "r = list_all (\<lambda>kv. case dict_get ys (fst kv) of
                               None \<Rightarrow> False
                             | Some w \<Rightarrow> p (snd kv) w) xs"
        by simp
      with True qp Some show ?thesis by (simp add: kv)
    next
      case False
      with q Some Cons.prems(2) qp show ?thesis by (simp add: kv)
    qed
  qed
qed

lemma py_eq_limited_sound:
  assumes "py_eq_limited n a b = Inr r"
  shows "r = py_eq a b"
  using assms
proof (induction n arbitrary: a b r)
  case 0
  then show ?case by simp
next
  case (Suc n)
  show ?case
  proof (cases a)
    case (PList xs)
    show ?thesis
    proof (cases b)
      case ys: (PList ys)
      show ?thesis
      proof (cases "length xs = length ys")
        case False
        with Suc.prems show ?thesis by (auto simp add: PList ys dest: list_all2_lengthD)
      next
        case True
        with Suc.prems have "all_eq_seq (py_eq_limited n) xs ys = Inr r"
          by (simp add: PList ys)
        from all_eq_seq_sound [OF True _ this, of py_eq] Suc.IH
        show ?thesis by (simp add: PList ys)
      qed
    qed (use Suc.prems in \<open>simp_all add: PList\<close>)
  next
    case (PDict xs)
    show ?thesis
    proof (cases b)
      case ys: (PDict ys)
      show ?thesis
      proof (cases "length xs = length ys")
        case False
        with Suc.prems show ?thesis by (simp add: PDict ys)
      next
        case True
        with Suc.prems have "dict_eq_seq (py_eq_limited n) xs ys = Inr r"
          by (simp add: PDict ys)
        from dict_eq_seq_sound [of xs ys "py_eq_limited n" py_eq, OF _ this] Suc.IH True
        show ?thesis by (simp add: PDict ys)
      qed
    qed (use Suc.prems in \<open>simp_all add: PDict\<close>)
  qed (use Suc.prems in \<open>cases b; auto\<close>)+
qed

lemma py_in_limited_sound:
  assumes "py_in_limited n v els = Inr r"
  shows "r = py_in v els"
  using assms
proof (induction els)
  case Nil
  then show ?case by (simp add: py_in_def)
next
  case (Cons el els)
  from Cons.prems obtain q where q: "py_eq_limited n v el = Inr q"
    by (cases "py_eq_limited n v el") simp_all
  from py_eq_limited_sound [OF q] have qp: "q = py_eq v el" .
  show ?case
  proof (cases q)
    case True
    with q Cons.prems qp show ?thesis by (simp add: py_in_def)
  next
    case False
    with q Cons.prems have "py_in_limited n v els = Inr r" by simp
    with Cons.IH have "r = py_in v els" by simp
    with False qp show ?thesis by (simp add: py_in_def)
  qed
qed

lemma deep_capability_agent_fields:
  "capabilities (deep_capability_agent jsv :: 'w agent) = [nest 1000 (PInt 1)]"
  by (simp add: deep_capability_agent_def SummarizerAgent_def init_defs base_agent.defs agent.defs)

lemma answer_entry:
  "call_entrypoint (answer_summarizer required_keys) (hd (decompose_goal goal)) (w :: 'w)
     = (Inr (PDict [(PStr ''summary'', PStr []),
                    (PStr ''highlights'', PList []),
                    (PStr ''sources'', PList [])]), w)"
  by (simp add: answer_summarizer_call decompose_goal_def run_defs answer_summarizer_fields)

lemma answer_select:
  "select_agent_for_task required_keys [answer_summarizer required_keys :: 'w agent]
     (hd (decompose_goal goal)) = Inr (Some (answer_summarizer required_keys))"
  by (simp add: decompose_goal_def run_defs answer_summarizer_fields)

lemma answer_invalid:
  "\<not> required_keys (PDict [(PStr ''summary'', PStr []),
                             (PStr ''highlights'', PList []),
                             (PStr ''sources'', PList [])])
        (output_schema (answer_summarizer required_keys :: 'w agent))"
  by (simp add: required_keys_def answer_summarizer_fields)

section \<open>Agent selection\<close>



section \<open>Determinism of a plan\<close>

text \<open>
  C3. With the same registry, whose agents are all deterministic, two runs of
  \<^verbatim>\<open>plan_and_execute\<close> on the same goal, started in any two states of the world,
  make the same calls of \<^verbatim>\<open>dispatch_task\<close> (the same agent for each task, in the same
  order) and return the same results dict, or raise the same exception.
\<close>

theorem plan_and_execute_deterministic:
  assumes "list_all deterministic_agent registry"
  shows "fst (plan_and_execute jsv registry goal w1) = fst (plan_and_execute jsv registry goal w2)
       \<and> plan_calls jsv registry goal w1 = plan_calls jsv registry goal w2"
proof -
  let ?r1 = "execute_tasks jsv registry (decompose_goal goal) [] w1 []"
  let ?r2 = "execute_tasks jsv registry (decompose_goal goal) [] w2 []"
  from execute_tasks_deterministic [OF assms, of jsv "decompose_goal goal" "[]" w1 "[]" w2]
  have "fst ?r1 = fst ?r2" and "snd (snd ?r1) = snd (snd ?r2)" by simp_all
  then show ?thesis
    by (cases ?r1; cases ?r2)
       (auto simp add: plan_and_execute_def plan_calls_def plan_run_def split: sum.splits)
qed

text \<open>
  C3 at a registry holding the plain summarizer, for runs started in the worlds 0 and 1:
  both return the same results and make the same single call.
\<close>

theorem plan_and_execute_deterministic_witness:
  "list_all deterministic_agent [plain_summarizer no_jsonschema :: nat agent]
   \<and> fst (plan_and_execute no_jsonschema [plain_summarizer no_jsonschema] ''goal'' (0 :: nat))
       = fst (plan_and_execute no_jsonschema [plain_summarizer no_jsonschema] ''goal'' (1 :: nat))
   \<and> plan_calls no_jsonschema [plain_summarizer no_jsonschema] ''goal'' (0 :: nat)
       = plan_calls no_jsonschema [plain_summarizer no_jsonschema] ''goal'' (1 :: nat)
   \<and> plan_calls no_jsonschema [plain_summarizer no_jsonschema] ''goal'' (0 :: nat)
       = [(plain_summarizer no_jsonschema, hd (decompose_goal ''goal''))]"
proof -
  have d: "list_all deterministic_agent [plain_summarizer no_jsonschema :: nat agent]"
    by (simp add: SummarizerAgent_deterministic [OF plain_summarizer_built])
  have c: "plan_calls no_jsonschema [plain_summarizer no_jsonschema] ''goal'' (0 :: nat)
             = [(plain_summarizer no_jsonschema, hd (decompose_goal ''goal''))]"
    by (simp add: plan_calls_def plain_plan_run)
  from d c plan_and_execute_deterministic [OF d, of no_jsonschema "''goal''" 0 1]
  show ?thesis by simp
qed

section \<open>Input validation\<close>

text \<open>
  C4. For every agent and every payload, when the agent's \<^verbatim>\<open>input_schema\<close> is absent
  (\<^verbatim>\<open>None\<close>) or empty (\<^verbatim>\<open>{}\<close>), and more generally whenever it is falsy,
  \<^verbatim>\<open>validate_input\<close> returns \<^verbatim>\<open>True\<close>, whatever the validator would say.
\<close>

theorem validate_input_no_schema:
  "(input_schema self = PNone \<longrightarrow> validate_input jsv self payload)
   \<and> (input_schema self = PDict [] \<longrightarrow> validate_input jsv self payload)
   \<and> (\<not> truthy (input_schema self) \<longrightarrow> validate_input jsv self payload)"
  by (simp add: validate_input_def)

text \<open>
  C4 at the plain summarizer, whose configuration has no \<^verbatim>\<open>input_schema\<close>, and at the
  same agent with the schema \<^verbatim>\<open>{}\<close>: both accept the payload 5 although no validator
  is available.
\<close>

theorem validate_input_no_schema_witness:
  "input_schema (plain_summarizer no_jsonschema :: unit agent) = PNone
   \<and> validate_input no_jsonschema (plain_summarizer no_jsonschema :: unit agent) (PInt 5)
   \<and> input_schema ((plain_summarizer no_jsonschema :: unit agent)\<lparr>input_schema := PDict []\<rparr>) = PDict []
   \<and> validate_input no_jsonschema
       ((plain_summarizer no_jsonschema :: unit agent)\<lparr>input_schema := PDict []\<rparr>) (PInt 5)"
  using validate_input_no_schema [of "plain_summarizer no_jsonschema :: unit agent" no_jsonschema "PInt 5"]
        validate_input_no_schema [of "(plain_summarizer no_jsonschema :: unit agent)\<lparr>input_schema := PDict []\<rparr>"
          no_jsonschema "PInt 5"]
  by (simp add: plain_summarizer_fields)

section \<open>Goal decomposition\<close>

text \<open>
  C6. For every goal, \<^verbatim>\<open>decompose_goal\<close> returns the same list of one task, whose
  \<^verbatim>\<open>task_id\<close> is "t1", whose \<^verbatim>\<open>task_type\<close> is "summarize\_text", whose
  \<^verbatim>\<open>dependencies\<close> are empty and whose \<^verbatim>\<open>priority\<close> is 50.
\<close>

theorem decompose_goal_single_task:
  "decompose_goal goal =
     [PDict [(PStr ''task_id'', PStr ''t1''),
             (PStr ''task_type'', PStr ''summarize_text''),
             (PStr ''payload'',
                PDict [(PStr ''documents'', PList []),
                       (PStr ''summary_length'', PStr ''short'')]),
             (PStr ''dependencies'', PList []),
             (PStr ''priority'', PInt 50)]]
   \<and> length (decompose_goal goal) = 1
   \<and> subscript (hd (decompose_goal goal)) (PStr ''task_id'') = Inr (PStr ''t1'')
   \<and> subscript (hd (decompose_goal goal)) (PStr ''task_type'') = Inr (PStr ''summarize_text'')
   \<and> subscript (hd (decompose_goal goal)) (PStr ''dependencies'') = Inr (PList [])
   \<and> subscript (hd (decompose_goal goal)) (PStr ''priority'') = Inr (PInt 50)
   \<and> decompose_goal goal = decompose_goal other_goal"
  by (simp add: decompose_goal_def)

section \<open>The capability check\<close>

text \<open>
  C10, as the code has it. For every JSON-like value, \<^verbatim>\<open>can_handle\<close> returns
  \<^verbatim>\<open>False\<close>, without raising, when the argument is not a dict and when the dict has
  no truthy \<^verbatim>\<open>task_type\<close>. For a dict with a truthy \<^verbatim>\<open>task_type\<close> that is nested
  less deeply than the recursion limit allows (every string is), it does not raise
  either and returns whether the \<^verbatim>\<open>task_type\<close> is in the agent's capabilities. And
  whenever it returns, it returns \<^verbatim>\<open>True\<close> exactly when the argument is a dict whose
  \<^verbatim>\<open>task_type\<close> is truthy and in the capabilities.
\<close>

theorem can_handle_limited_total:
  "((\<forall>d. task \<noteq> PDict d) \<longrightarrow> can_handle_limited n self task = Inr False)
   \<and> (\<forall>d. task = PDict d \<and> \<not> truthy (get_default d (PStr ''task_type'') PNone)
          \<longrightarrow> can_handle_limited n self task = Inr False)
   \<and> (\<forall>d. task = PDict d \<and> truthy (get_default d (PStr ''task_type'') PNone)
            \<and> nesting (get_default d (PStr ''task_type'') PNone) < n
          \<longrightarrow> can_handle_limited n self task
                = Inr (py_in (get_default d (PStr ''task_type'') PNone) (capabilities self)))
   \<and> (\<forall>b. can_handle_limited n self task = Inr b \<longrightarrow> b = can_handle self task)"
proof -
  have sound: "\<And>b. can_handle_limited n self task = Inr b \<Longrightarrow> b = can_handle self task"
    by (cases task)
       (auto simp add: can_handle_limited_def can_handle_def Let_def
          dest: py_in_limited_sound split: if_splits)
  have complete:
    "((\<forall>d. task \<noteq> PDict d) \<longrightarrow> can_handle_limited n self task = Inr False)
     \<and> (\<forall>d. task = PDict d \<and> \<not> truthy (get_default d (PStr ''task_type'') PNone)
            \<longrightarrow> can_handle_limited n self task = Inr False)
     \<and> (\<forall>d. task = PDict d \<and> truthy (get_default d (PStr ''task_type'') PNone)
              \<and> nesting (get_default d (PStr ''task_type'') PNone) < n
            \<longrightarrow> can_handle_limited n self task
                  = Inr (py_in (get_default d (PStr ''task_type'') PNone) (capabilities self)))"
    by (cases task)
       (simp_all add: can_handle_limited_def Let_def py_in_limited_complete)
  from complete sound show ?thesis by blast
qed

text \<open>
  C10 at the plain summarizer with 1000 nested comparisons allowed: \<^verbatim>\<open>False\<close> for the
  number 3 and for the task \<^verbatim>\<open>{"task_type": ""}\<close>, \<^verbatim>\<open>True\<close> for the task of
  \<^verbatim>\<open>decompose_goal\<close>.
\<close>

theorem can_handle_limited_witness:
  "can_handle_limited 1000 (plain_summarizer no_jsonschema :: unit agent) (PInt 3) = Inr False
   \<and> \<not> truthy (get_default [(PStr ''task_type'', PStr [])] (PStr ''task_type'') PNone)
   \<and> can_handle_limited 1000 (plain_summarizer no_jsonschema :: unit agent)
        (PDict [(PStr ''task_type'', PStr [])]) = Inr False
   \<and> truthy (get_default (case hd (decompose_goal ''goal'') of PDict d \<Rightarrow> d)
               (PStr ''task_type'') PNone)
   \<and> nesting (get_default (case hd (decompose_goal ''goal'') of PDict d \<Rightarrow> d)
                (PStr ''task_type'') PNone) < 1000
   \<and> can_handle_limited 1000 (plain_summarizer no_jsonschema :: unit agent)
        (hd (decompose_goal ''goal'')) = Inr True
   \<and> can_handle (plain_summarizer no_jsonschema :: unit agent) (hd (decompose_goal ''goal''))"
  using can_handle_limited_total
          [of "PInt 3" 1000 "plain_summarizer no_jsonschema :: unit agent"]
        can_handle_limited_total
          [of "PDict [(PStr ''task_type'', PStr [])]" 1000
              "plain_summarizer no_jsonschema :: unit agent"]
        can_handle_limited_total
          [of "hd (decompose_goal ''goal'')" 1000 "plain_summarizer no_jsonschema :: unit agent"]
  by (simp add: decompose_goal_def get_default_def plain_summarizer_fields py_in_def)

text \<open>
  C10 as stated fails: \<^verbatim>\<open>can_handle\<close> is not total. For the task whose \<^verbatim>\<open>task_type\<close>
  is the number 0 wrapped in 1000 lists, and an agent whose capability is the number
  1 wrapped in 1000 lists, the comparison of the two needs more nested calls than
  the 1000 allowed, and \<^verbatim>\<open>can_handle\<close> raises \<^verbatim>\<open>RecursionError\<close>. The two values
  differ at every level, so they share no object that would end the comparison early.
\<close>

theorem can_handle_recursion_counterexample:
  "can_handle_limited 1000 (deep_capability_agent no_jsonschema :: unit agent)
     (PDict [(PStr ''task_type'', nest 1000 (PInt 0))]) = Inl RecursionError"
proof -
  have "truthy (nest 1000 (PInt 0))"
    by (simp add: eval_nat_numeral)
  then show ?thesis
    by (simp add: can_handle_limited_def get_default_def deep_capability_agent_fields
          py_eq_limited_nest)
qed

section \<open>A task without a capable agent\<close>

text \<open>
  C2, as the code has it. When the loop of \<^verbatim>\<open>plan_and_execute\<close> reaches a task for
  which \<^verbatim>\<open>select_agent_for_task\<close> finds no agent, it raises the \<^verbatim>\<open>RuntimeError\<close>
  "No agent available to handle task <id>" at once: no call of \<^verbatim>\<open>dispatch_task\<close> is
  made for the task, nothing is retried, and the world is as it was. The exception
  ends \<^verbatim>\<open>plan_and_execute\<close>: no results dict is returned, and the remaining tasks are
  neither selected for nor dispatched. For the one task \<^verbatim>\<open>decompose_goal\<close> returns,
  \<^verbatim>\<open>plan_and_execute\<close> raises that error for "t1" and makes no call at all.
\<close>

theorem no_capable_agent_raises:
  "(select_agent_for_task jsv registry task = Inr None \<and>
    subscript task (PStr ''task_id'') = Inr tid
      \<longrightarrow> execute_tasks jsv registry (task # rest) results w calls
            = (Inl (RuntimeError (NoAgentAvailable tid)), w, calls))
   \<and> (select_agent_for_task jsv registry (hd (decompose_goal goal)) = Inr None
      \<longrightarrow> plan_and_execute jsv registry goal w
            = (Inl (RuntimeError (NoAgentAvailable (PStr ''t1''))), w)
          \<and> plan_calls jsv registry goal w = [])"
  by (simp add: plan_and_execute_def plan_calls_def plan_run_def decompose_goal_def)

text \<open>
  C2 at the registry of the plain summarizer, for a task of type "translate\_text"
  followed by the task of \<^verbatim>\<open>decompose_goal\<close>; and at the empty registry, for
  \<^verbatim>\<open>plan_and_execute\<close> itself.
\<close>

theorem no_capable_agent_raises_witness:
  "select_agent_for_task no_jsonschema [plain_summarizer no_jsonschema :: unit agent] orphan_task
     = Inr None
   \<and> subscript orphan_task (PStr ''task_id'') = Inr (PStr ''t0'')
   \<and> execute_tasks no_jsonschema [plain_summarizer no_jsonschema]
        (orphan_task # decompose_goal ''goal'') [] () []
       = (Inl (RuntimeError (NoAgentAvailable (PStr ''t0''))), (), [])
   \<and> select_agent_for_task no_jsonschema ([] :: unit agent list)
        (hd (decompose_goal ''goal'')) = Inr None
   \<and> plan_and_execute no_jsonschema ([] :: unit agent list) ''goal'' ()
       = (Inl (RuntimeError (NoAgentAvailable (PStr ''t1''))), ())
   \<and> plan_calls no_jsonschema ([] :: unit agent list) ''goal'' () = []"
proof -
  have s1: "select_agent_for_task no_jsonschema [plain_summarizer no_jsonschema :: unit agent]
              orphan_task = Inr None"
    by (simp add: orphan_task_def run_defs plain_summarizer_fields)
  have s2: "subscript orphan_task (PStr ''task_id'') = Inr (PStr ''t0'')"
    by (simp add: orphan_task_def)
  have s3: "select_agent_for_task no_jsonschema ([] :: unit agent list)
              (hd (decompose_goal ''goal'')) = Inr None"
    by (simp add: select_agent_for_task_def)
  from no_capable_agent_raises [of no_jsonschema "[plain_summarizer no_jsonschema :: unit agent]"
         orphan_task "PStr ''t0''" "decompose_goal ''goal''" "[]" "()" "[]" "''goal''"] s1 s2
       no_capable_agent_raises [of no_jsonschema "[] :: unit agent list"
         orphan_task "PStr ''t0''" "[]" "[]" "()" "[]" "''goal''"] s3
  show ?thesis by simp
qed

text \<open>
  C2 as stated fails. With an empty registry \<^verbatim>\<open>plan_and_execute\<close> raises: it returns
  no plan result, so the error of "t1" is recorded nowhere. And with the plain
  summarizer registered, the task of \<^verbatim>\<open>decompose_goal\<close> runs when it is alone, but is
  never dispatched when a task without a capable agent precedes it, although it does
  not depend on that task.
\<close>

theorem no_capable_agent_counterexample:
  "plan_and_execute no_jsonschema ([] :: unit agent list) ''goal'' ()
     = (Inl (RuntimeError (NoAgentAvailable (PStr ''t1''))), ())
   \<and> \<not> records_task_error
          (fst (plan_and_execute no_jsonschema ([] :: unit agent list) ''goal'' ()))
          (PStr ''t1'')
   \<and> execute_tasks no_jsonschema [plain_summarizer no_jsonschema] (decompose_goal ''goal'') [] () []
     = (Inr [(PStr ''t1'',
              PDict [(PStr ''summary'', PStr []),
                     (PStr ''highlights'', PList []),
                     (PStr ''sources'', PList [])])],
        (), [(plain_summarizer no_jsonschema, hd (decompose_goal ''goal''))])
   \<and> execute_tasks no_jsonschema [plain_summarizer no_jsonschema]
        (orphan_task # decompose_goal ''goal'') [] () []
     = (Inl (RuntimeError (NoAgentAvailable (PStr ''t0''))), (), [])"
proof -
  have p: "plan_and_execute no_jsonschema ([] :: unit agent list) ''goal'' ()
     = (Inl (RuntimeError (NoAgentAvailable (PStr ''t1''))), ())"
    by (simp add: plan_and_execute_def plan_run_def decompose_goal_def select_agent_for_task_def)
  have r: "\<not> records_task_error (Inl (RuntimeError (NoAgentAvailable (PStr ''t1''))))
               (PStr ''t1'')"
    by (simp add: records_task_error_def)
  have a: "execute_tasks no_jsonschema [plain_summarizer no_jsonschema] (decompose_goal ''goal'')
             [] () []
     = (Inr [(PStr ''t1'',
              PDict [(PStr ''summary'', PStr []),
                     (PStr ''highlights'', PList []),
                     (PStr ''sources'', PList [])])],
        (), [(plain_summarizer no_jsonschema, hd (decompose_goal ''goal''))])"
    using plain_plan_run [of "''goal''" "()"] by (simp add: plan_run_def)
  have s: "select_agent_for_task no_jsonschema [plain_summarizer no_jsonschema :: unit agent]
             orphan_task = Inr None"
    by (simp add: orphan_task_def run_defs plain_summarizer_fields)
  have b: "execute_tasks no_jsonschema [plain_summarizer no_jsonschema]
             (orphan_task # decompose_goal ''goal'') [] () []
     = (Inl (RuntimeError (NoAgentAvailable (PStr ''t0''))), (), [])"
    using s by (simp add: orphan_task_def)
  from p r a b show ?thesis by simp
qed

section \<open>Output validation\<close>

text \<open>
  C5, as the code has it. For every agent with a declared (truthy) output schema and
  every task, when the agent's entrypoint returns a result, \<^verbatim>\<open>dispatch_task\<close>
  validates that result against the output schema and returns it when the validation
  passes; when it does not, \<^verbatim>\<open>dispatch_task\<close> raises the \<^verbatim>\<open>RuntimeError\<close>
  "Output validation failed" in place of the validator's exception, in the world
  the agent left. The loop of \<^verbatim>\<open>plan_and_execute\<close> does not catch it: the run ends
  with that exception after the one call made for the task, the remaining tasks are
  not dispatched, and no plan result is returned.
\<close>

theorem output_mismatch_raises:
  "(truthy (output_schema agent) \<and> call_entrypoint agent task w = (Inr result, w')
      \<longrightarrow> dispatch_task jsv agent task w =
            (if jsv result (output_schema agent) then Inr result
             else Inl (RuntimeError OutputValidationFailed), w'))
   \<and> (select_agent_for_task jsv registry task = Inr (Some agent) \<and>
      truthy (output_schema agent) \<and> call_entrypoint agent task w = (Inr result, w') \<and>
      \<not> jsv result (output_schema agent)
      \<longrightarrow> execute_tasks jsv registry (task # rest) results w calls
            = (Inl (RuntimeError OutputValidationFailed), w', calls @ [(agent, task)]))
   \<and> (select_agent_for_task jsv registry (hd (decompose_goal goal)) = Inr (Some agent) \<and>
      truthy (output_schema agent) \<and>
      call_entrypoint agent (hd (decompose_goal goal)) w = (Inr result, w') \<and>
      \<not> jsv result (output_schema agent)
      \<longrightarrow> plan_and_execute jsv registry goal w
            = (Inl (RuntimeError OutputValidationFailed), w')
          \<and> plan_calls jsv registry goal w = [(agent, hd (decompose_goal goal))])"
proof -
  have d: "truthy (output_schema agent) \<Longrightarrow> call_entrypoint agent t v = (Inr result, w')
             \<Longrightarrow> dispatch_task jsv agent t v =
                   (if jsv result (output_schema agent) then Inr result
                    else Inl (RuntimeError OutputValidationFailed), w')" for t v
    by (simp add: dispatch_task_def)
  have l: "select_agent_for_task jsv registry t = Inr (Some agent)
             \<Longrightarrow> truthy (output_schema agent)
             \<Longrightarrow> call_entrypoint agent t w = (Inr result, w')
             \<Longrightarrow> \<not> jsv result (output_schema agent)
             \<Longrightarrow> execute_tasks jsv registry (t # ts) rs w cs
                   = (Inl (RuntimeError OutputValidationFailed), w', cs @ [(agent, t)])"
    for t ts rs cs
    by (simp add: d)
  have t: "decompose_goal goal = [hd (decompose_goal goal)]"
    by (simp add: decompose_goal_def)
  have p: "select_agent_for_task jsv registry (hd (decompose_goal goal)) = Inr (Some agent)
             \<Longrightarrow> truthy (output_schema agent)
             \<Longrightarrow> call_entrypoint agent (hd (decompose_goal goal)) w = (Inr result, w')
             \<Longrightarrow> \<not> jsv result (output_schema agent)
             \<Longrightarrow> plan_run jsv registry goal w
                   = (Inl (RuntimeError OutputValidationFailed), w',
                      [(agent, hd (decompose_goal goal))])"
  proof -
    assume a: "select_agent_for_task jsv registry (hd (decompose_goal goal)) = Inr (Some agent)"
      "truthy (output_schema agent)"
      "call_entrypoint agent (hd (decompose_goal goal)) w = (Inr result, w')"
      "\<not> jsv result (output_schema agent)"
    have "plan_run jsv registry goal w
            = execute_tasks jsv registry [hd (decompose_goal goal)] [] w []"
      unfolding plan_run_def by (subst t) (rule refl)
    with l [OF a, of "[]" "[]" "[]"] show ?thesis by simp
  qed
  from d [of task w] l [of task rest results calls] p show ?thesis
    by (auto simp add: plan_and_execute_def plan_calls_def)
qed

text \<open>
  C5 at the task of \<^verbatim>\<open>decompose_goal\<close>, with a validator that checks required keys.
  The summarizer of the tests returns a dict with the required key \<^verbatim>\<open>summary\<close>, which
  \<^verbatim>\<open>dispatch_task\<close> returns. The summarizer whose output schema requires \<^verbatim>\<open>answer\<close>
  returns the same dict: \<^verbatim>\<open>dispatch_task\<close> raises "Output validation failed", the
  loop ends there without dispatching the task that follows, and \<^verbatim>\<open>plan_and_execute\<close>
  raises after that one call.
\<close>

theorem output_mismatch_raises_witness:
  "truthy (output_schema (test_summarizer required_keys :: unit agent))
   \<and> call_entrypoint (test_summarizer required_keys) (hd (decompose_goal ''goal'')) ()
       = (Inr (PDict [(PStr ''summary'', PStr []),
                      (PStr ''highlights'', PList []),
                      (PStr ''sources'', PList [])]), ())
   \<and> dispatch_task required_keys (test_summarizer required_keys) (hd (decompose_goal ''goal'')) ()
       = (Inr (PDict [(PStr ''summary'', PStr []),
                      (PStr ''highlights'', PList []),
                      (PStr ''sources'', PList [])]), ())
   \<and> select_agent_for_task required_keys [answer_summarizer required_keys :: unit agent]
        (hd (decompose_goal ''goal'')) = Inr (Some (answer_summarizer required_keys))
   \<and> truthy (output_schema (answer_summarizer required_keys :: unit agent))
   \<and> call_entrypoint (answer_summarizer required_keys) (hd (decompose_goal ''goal'')) ()
       = (Inr (PDict [(PStr ''summary'', PStr []),
                      (PStr ''highlights'', PList []),
                      (PStr ''sources'', PList [])]), ())
   \<and> \<not> required_keys (PDict [(PStr ''summary'', PStr []),
                               (PStr ''highlights'', PList []),
                               (PStr ''sources'', PList [])])
          (output_schema (answer_summarizer required_keys :: unit agent))
   \<and> dispatch_task required_keys (answer_summarizer required_keys)
        (hd (decompose_goal ''goal'')) ()
       = (Inl (RuntimeError OutputValidationFailed), ())
   \<and> execute_tasks required_keys [answer_summarizer required_keys]
        (hd (decompose_goal ''goal'') # [PDict test_task]) [] () []
       = (Inl (RuntimeError OutputValidationFailed), (),
          [(answer_summarizer required_keys, hd (decompose_goal ''goal''))])
   \<and> plan_and_execute required_keys [answer_summarizer required_keys] ''goal'' ()
       = (Inl (RuntimeError OutputValidationFailed), ())
   \<and> plan_calls required_keys [answer_summarizer required_keys] ''goal'' ()
       = [(answer_summarizer required_keys, hd (decompose_goal ''goal''))]"
proof -
  let ?t = "hd (decompose_goal ''goal'')"
  let ?r = "PDict [(PStr ''summary'', PStr []), (PStr ''highlights'', PList []),
                   (PStr ''sources'', PList [])]"
  have s1: "truthy (output_schema (test_summarizer required_keys :: unit agent))"
    by (simp add: test_summarizer_fields)
  have s2: "truthy (output_schema (answer_summarizer required_keys :: unit agent))"
    by (simp add: answer_summarizer_fields)
  have c1: "call_entrypoint (test_summarizer required_keys) ?t () = (Inr ?r, ())"
    by (simp add: test_summarizer_call decompose_goal_def run_defs required_keys_def
          test_summarizer_fields)
  have v1: "required_keys ?r (output_schema (test_summarizer required_keys :: unit agent))"
    by (simp add: required_keys_def test_summarizer_fields)
  note c2 = answer_entry [of "''goal''" "()"]
  note sel = answer_select [where ?'w = unit, of "''goal''"]
  note v2 = answer_invalid [where ?'w = unit]
  from s1 s2 c1 c2 v1 v2 sel
    output_mismatch_raises
      [of "test_summarizer required_keys :: unit agent" ?t "()" ?r "()" required_keys
          "[]" "[]" "[]" "[]" "''goal''"]
    output_mismatch_raises
      [of "answer_summarizer required_keys :: unit agent" ?t "()" ?r "()" required_keys
          "[answer_summarizer required_keys]" "[PDict test_task]" "[]" "[]" "''goal''"]
  show ?thesis by simp
qed

text \<open>
  C5 as stated fails: with the summarizer whose output schema requires \<^verbatim>\<open>answer\<close>
  registered, the schema mismatch ends \<^verbatim>\<open>plan_and_execute\<close> in an exception. No plan
  result is returned, the failure of "t1" is recorded nowhere, and a task that
  follows is never dispatched: the mismatch is not a failed attempt that the
  dispatcher survives.
\<close>

theorem output_mismatch_counterexample:
  "plan_and_execute required_keys [answer_summarizer required_keys] ''goal'' ()
     = (Inl (RuntimeError OutputValidationFailed), ())
   \<and> \<not> dispatcher_survives
          (fst (plan_and_execute required_keys [answer_summarizer required_keys] ''goal'' ()))
   \<and> \<not> records_task_error
          (fst (plan_and_execute required_keys [answer_summarizer required_keys] ''goal'' ()))
          (PStr ''t1'')
   \<and> execute_tasks required_keys [answer_summarizer required_keys]
        (hd (decompose_goal ''goal'') # [PDict test_task]) [] () []
       = (Inl (RuntimeError OutputValidationFailed), (),
          [(answer_summarizer required_keys, hd (decompose_goal ''goal''))])"
proof -
  have d: "dispatch_task required_keys (answer_summarizer required_keys)
             (hd (decompose_goal ''goal'')) ()
           = (Inl (RuntimeError OutputValidationFailed), ())"
    using answer_entry [of "''goal''" "()"] answer_invalid [where ?'w = unit]
    by (simp add: dispatch_task_def answer_summarizer_fields)
  have l: "execute_tasks required_keys [answer_summarizer required_keys]
             (hd (decompose_goal ''goal'') # ts) [] () []
           = (Inl (RuntimeError OutputValidationFailed), (),
              [(answer_summarizer required_keys, hd (decompose_goal ''goal''))])" for ts
    using answer_select [where ?'w = unit, of "''goal''"] d by simp
  have t: "decompose_goal ''goal'' = [hd (decompose_goal ''goal'')]"
    by (simp add: decompose_goal_def)
  have p: "plan_and_execute required_keys [answer_summarizer required_keys] ''goal'' ()
     = (Inl (RuntimeError OutputValidationFailed), ())"
  proof -
    have "plan_run required_keys [answer_summarizer required_keys] ''goal'' ()
            = execute_tasks required_keys [answer_summarizer required_keys]
                [hd (decompose_goal ''goal'')] [] () []"
      unfolding plan_run_def by (subst t) (rule refl)
    with l [of "[]"] show ?thesis by (simp add: plan_and_execute_def)
  qed
  from p l [of "[PDict test_task]"] show ?thesis
    by (simp add: dispatcher_survives_def records_task_error_def)
qed

section \<open>The plan result\<close>

text \<open>
  C7, as the code has it. For every goal on which it completes, \<^verbatim>\<open>plan_and_execute\<close>
  returns a dict whose only key is "t1", the id of the one decomposed task, mapped
  to the value that the selected agent's entrypoint returned, as it is (and valid
  for the agent's output schema, where one is declared). The planner adds nothing of
  its own: the entry has a status, a result or error and a number of attempts only
  where the agent's own result has them, and the dict has no key for an overall
  status.
\<close>

theorem plan_result_maps_id_to_raw_result:
  assumes "plan_and_execute jsv registry goal w = (Inr res, w')"
  shows "\<exists>agent r.
           select_agent_for_task jsv registry (hd (decompose_goal goal)) = Inr (Some agent) \<and>
           call_entrypoint agent (hd (decompose_goal goal)) w = (Inr r, w') \<and>
           (truthy (output_schema agent) \<longrightarrow> jsv r (output_schema agent)) \<and>
           dispatch_task jsv agent (hd (decompose_goal goal)) w = (Inr r, w') \<and>
           res = PDict [(PStr ''t1'', r)] \<and>
           (\<forall>k. has_key [(PStr ''t1'', r)] k = (k = ''t1'')) \<and>
           claimed_task_entry (get_default [(PStr ''t1'', r)] (PStr ''t1'') PNone)
             = claimed_task_entry r"
proof -
  let ?t = "hd (decompose_goal goal)"
  have t: "decompose_goal goal = [?t]"
    and tid: "subscript ?t (PStr ''task_id'') = Inr (PStr ''t1'')"
    by (simp_all add: decompose_goal_def)
  from assms obtain results calls where
    run: "execute_tasks jsv registry [?t] [] w [] = (Inr results, w', calls)"
    and res: "res = PDict results"
    unfolding plan_and_execute_def plan_run_def
    by (subst (asm) t) (auto split: prod.splits sum.splits)
  from run obtain agent where sel: "select_agent_for_task jsv registry ?t = Inr (Some agent)"
    by (cases "select_agent_for_task jsv registry ?t")
       (auto simp add: tid split: option.splits sum.splits)
  obtain out v where d: "dispatch_task jsv agent ?t w = (out, v)"
    by (cases "dispatch_task jsv agent ?t w")
  from run sel d tid obtain r where o: "out = Inr r" and v: "v = w'"
    and rs: "results = [(PStr ''t1'', r)]"
    by (cases out) (auto simp add: dict_setitem_def split: if_splits)
  from d o v have c: "call_entrypoint agent ?t w = (Inr r, w')"
    and s: "truthy (output_schema agent) \<longrightarrow> jsv r (output_schema agent)"
    by (auto simp add: dispatch_task_def split: prod.splits sum.splits if_splits)
  have k: "\<forall>k. has_key [(PStr ''t1'', r)] k = (k = ''t1'')"
    by (auto simp add: has_key_def)
  from sel c s d o v res rs k show ?thesis by (simp add: get_default_def)
qed

text \<open>
  C7 at the registry of the plain summarizer: the plan result is
  \<^verbatim>\<open>{"t1": {"summary": "", "highlights": [], "sources": []}}\<close>, whose entry is what
  the summarizer returned.
\<close>

theorem plan_result_maps_id_to_raw_result_witness:
  "plan_and_execute no_jsonschema [plain_summarizer no_jsonschema] ''goal'' ()
     = (Inr (PDict [(PStr ''t1'',
                     PDict [(PStr ''summary'', PStr []),
                            (PStr ''highlights'', PList []),
                            (PStr ''sources'', PList [])])]), ())
   \<and> (\<exists>agent r.
         select_agent_for_task no_jsonschema [plain_summarizer no_jsonschema :: unit agent]
           (hd (decompose_goal ''goal'')) = Inr (Some agent) \<and>
         call_entrypoint agent (hd (decompose_goal ''goal'')) () = (Inr r, ()) \<and>
         dispatch_task no_jsonschema agent (hd (decompose_goal ''goal'')) ()
           = (Inr r, ()) \<and>
         PDict [(PStr ''t1'',
                 PDict [(PStr ''summary'', PStr []),
                        (PStr ''highlights'', PList []),
                        (PStr ''sources'', PList [])])] = PDict [(PStr ''t1'', r)])"
proof -
  have p: "plan_and_execute no_jsonschema [plain_summarizer no_jsonschema] ''goal'' ()
     = (Inr (PDict [(PStr ''t1'',
                     PDict [(PStr ''summary'', PStr []),
                            (PStr ''highlights'', PList []),
                            (PStr ''sources'', PList [])])]), ())"
    by (simp add: plan_and_execute_def plain_plan_run)
  from plan_result_maps_id_to_raw_result [OF p] have
    "\<exists>agent r.
         select_agent_for_task no_jsonschema [plain_summarizer no_jsonschema :: unit agent]
           (hd (decompose_goal ''goal'')) = Inr (Some agent) \<and>
         call_entrypoint agent (hd (decompose_goal ''goal'')) () = (Inr r, ()) \<and>
         dispatch_task no_jsonschema agent (hd (decompose_goal ''goal'')) ()
           = (Inr r, ()) \<and>
         PDict [(PStr ''t1'',
                 PDict [(PStr ''summary'', PStr []),
                        (PStr ''highlights'', PList []),
                        (PStr ''sources'', PList [])])] = PDict [(PStr ''t1'', r)]"
    by blast
  with p show ?thesis by simp
qed

text \<open>
  C7 as stated fails: in the plan result of the plain summarizer, the entry of "t1"
  has the keys \<^verbatim>\<open>summary\<close>, \<^verbatim>\<open>highlights\<close> and \<^verbatim>\<open>sources\<close> only (no status, no result
  or error, no attempts), and the returned dict has the key "t1" only (no overall
  status).
\<close>

theorem plan_result_counterexample:
  "plan_and_execute no_jsonschema [plain_summarizer no_jsonschema] ''goal'' ()
     = (Inr (PDict [(PStr ''t1'',
                     PDict [(PStr ''summary'', PStr []),
                            (PStr ''highlights'', PList []),
                            (PStr ''sources'', PList [])])]), ())
   \<and> \<not> claimed_task_entry (PDict [(PStr ''summary'', PStr []),
                                  (PStr ''highlights'', PList []),
                                  (PStr ''sources'', PList [])])
   \<and> \<not> has_key [(PStr ''t1'',
                   PDict [(PStr ''summary'', PStr []),
                          (PStr ''highlights'', PList []),
                          (PStr ''sources'', PList [])])] ''status''"
  by (simp add: plan_and_execute_def plain_plan_run claimed_task_entry_def has_key_def)

section \<open>Configuration keys and the constructor argument\<close>

text \<open>
  C8. For every construction of a \<^verbatim>\<open>BaseAgent\<close> that succeeds: a truthy
  \<^verbatim>\<open>rag_enabled\<close> argument gives \<^verbatim>\<open>rag_enabled = True\<close> whatever the configuration
  says; a falsy argument (\<^verbatim>\<open>False\<close>, the default, or \<^verbatim>\<open>None\<close>) is overridden by the
  configuration: the attribute is the truth value of \<^verbatim>\<open>rag.enabled\<close>, and of the
  alias key \<^verbatim>\<open>rag_enabled\<close> where \<^verbatim>\<open>rag.enabled\<close> is missing. So with the argument
  \<^verbatim>\<open>False\<close> and \<^verbatim>\<open>rag.enabled = true\<close> in the configuration the agent has
  \<^verbatim>\<open>rag_enabled = True\<close>, and likewise with the alias \<^verbatim>\<open>rag_enabled = true\<close> in a
  configuration without the key \<^verbatim>\<open>rag\<close>.
\<close>

theorem config_overrides_rag_argument:
  assumes "BaseAgent_init name tools_arg config_arg role_arg rag_arg vs_arg inter_arg = Inr a"
    and "cfg = init_config config_arg"
  shows "(truthy rag_arg \<longrightarrow> rag_enabled a)
       \<and> (\<not> truthy rag_arg \<longrightarrow>
            (\<exists>rag. get_default cfg (PStr ''rag'') (PDict []) = PDict rag \<and>
                   rag_enabled a =
                     truthy (get_default rag (PStr ''enabled'')
                               (get_default cfg (PStr ''rag_enabled'') (PBool False)))))
       \<and> (\<not> truthy rag_arg \<and> dict_get cfg (PStr ''rag'') = Some (PDict rag) \<and>
            dict_get rag (PStr ''enabled'') = Some (PBool True) \<longrightarrow> rag_enabled a)
       \<and> (\<not> truthy rag_arg \<and> dict_get cfg (PStr ''rag'') = None \<and>
            dict_get cfg (PStr ''rag_enabled'') = Some (PBool True) \<longrightarrow> rag_enabled a)"
proof -
  from assms have r: "init_rag_enabled rag_arg cfg = Inr (rag_enabled a)"
    by (auto simp add: BaseAgent_init_def Let_def split: sum.splits)
  have t: "truthy rag_arg \<Longrightarrow> rag_arg \<noteq> PNone" by auto
  show ?thesis
  proof (cases "truthy rag_arg")
    case True
    with r t show ?thesis by (simp add: init_rag_enabled_def)
  next
    case False
    with r obtain v where
      m: "method_get (get_default cfg (PStr ''rag'') (PDict [])) (PStr ''enabled'')
            (get_default cfg (PStr ''rag_enabled'') (PBool False)) = Inr v"
      and v: "rag_enabled a = truthy v"
      by (auto simp add: init_rag_enabled_def split: sum.splits)
    from m obtain rg where rg: "get_default cfg (PStr ''rag'') (PDict []) = PDict rg"
      by (cases "get_default cfg (PStr ''rag'') (PDict [])") simp_all
    with m v have g: "rag_enabled a = truthy (get_default rg (PStr ''enabled'')
                               (get_default cfg (PStr ''rag_enabled'') (PBool False)))"
      by auto
    from False rg g show ?thesis
      by (auto simp add: get_default_def)
  qed
qed

text \<open>
  C8 at three constructions: the argument \<^verbatim>\<open>False\<close> with \<^verbatim>\<open>rag.enabled = true\<close>, the
  argument \<^verbatim>\<open>False\<close> with the alias \<^verbatim>\<open>rag_enabled = true\<close>, and the argument \<^verbatim>\<open>True\<close>
  with \<^verbatim>\<open>rag.enabled = false\<close>. Each agent has \<^verbatim>\<open>rag_enabled = True\<close>.
\<close>

theorem config_overrides_rag_argument_witness:
  "BaseAgent_init ''Agent'' PNone (Some rag_config) PNone (PBool False) PNone PNone
     = Inr rag_agent
   \<and> \<not> truthy (PBool False)
   \<and> dict_get rag_config (PStr ''rag'')
       = Some (PDict [(PStr ''enabled'', PBool True), (PStr ''vector_store'', PStr ''pinecone'')])
   \<and> dict_get [(PStr ''enabled'', PBool True), (PStr ''vector_store'', PStr ''pinecone'')]
        (PStr ''enabled'') = Some (PBool True)
   \<and> rag_enabled rag_agent
   \<and> BaseAgent_init ''Agent'' PNone (Some rag_alias_config) PNone (PBool False) PNone PNone
     = Inr rag_alias_agent
   \<and> dict_get rag_alias_config (PStr ''rag'') = None
   \<and> dict_get rag_alias_config (PStr ''rag_enabled'') = Some (PBool True)
   \<and> rag_enabled rag_alias_agent
   \<and> BaseAgent_init ''Agent'' PNone (Some [(PStr ''rag'', PDict [(PStr ''enabled'', PBool False)])])
       PNone (PBool True) PNone PNone
     = Inr (rag_agent\<lparr>agent_config_dict := [(PStr ''rag'', PDict [(PStr ''enabled'', PBool False)])],
                       vector_store := PNone\<rparr>)
   \<and> truthy (PBool True)
   \<and> rag_enabled (rag_agent\<lparr>agent_config_dict :=
                                 [(PStr ''rag'', PDict [(PStr ''enabled'', PBool False)])],
                               vector_store := PNone\<rparr>)"
proof -
  have i1: "BaseAgent_init ''Agent'' PNone (Some rag_config) PNone (PBool False) PNone PNone
              = Inr rag_agent"
    by (simp add: init_defs rag_config_def rag_agent_def)
  have i2: "BaseAgent_init ''Agent'' PNone (Some rag_alias_config) PNone (PBool False) PNone PNone
              = Inr rag_alias_agent"
    by (simp add: init_defs rag_alias_config_def rag_alias_agent_def)
  have i3: "BaseAgent_init ''Agent'' PNone
              (Some [(PStr ''rag'', PDict [(PStr ''enabled'', PBool False)])])
              PNone (PBool True) PNone PNone
     = Inr (rag_agent\<lparr>agent_config_dict := [(PStr ''rag'', PDict [(PStr ''enabled'', PBool False)])],
                       vector_store := PNone\<rparr>)"
    by (simp add: init_defs rag_agent_def)
  have k1: "dict_get rag_config (PStr ''rag'')
       = Some (PDict [(PStr ''enabled'', PBool True), (PStr ''vector_store'', PStr ''pinecone'')])"
    by (simp add: rag_config_def)
  have k2: "dict_get rag_alias_config (PStr ''rag'') = None"
    and k3: "dict_get rag_alias_config (PStr ''rag_enabled'') = Some (PBool True)"
    by (simp_all add: rag_alias_config_def)
  have c1: "rag_config = init_config (Some rag_config)"
    and c2: "rag_alias_config = init_config (Some rag_alias_config)"
    and c3: "[(PStr ''rag'', PDict [(PStr ''enabled'', PBool False)])]
               = init_config (Some [(PStr ''rag'', PDict [(PStr ''enabled'', PBool False)])])"
    by (simp_all add: init_config_def)
  from config_overrides_rag_argument
         [OF i1 c1, of "[(PStr ''enabled'', PBool True), (PStr ''vector_store'', PStr ''pinecone'')]"]
       config_overrides_rag_argument [OF i2 c2] config_overrides_rag_argument [OF i3 c3]
       i1 i2 i3 k1 k2 k3
  show ?thesis by simp
qed

section \<open>The summarizer\<close>

text \<open>
  C9, as the code has it. For every task dict whose payload (\<^verbatim>\<open>{}\<close> when absent) is a
  dict that passes input validation, whose \<^verbatim>\<open>documents\<close> (\<^verbatim>\<open>[]\<close> when absent) can be
  iterated, and whose documents are all dicts with a string (or no) \<^verbatim>\<open>text\<close>,
  \<^verbatim>\<open>SummarizerAgent.execute_task\<close> returns a dict with exactly the keys \<^verbatim>\<open>summary\<close>,
  \<^verbatim>\<open>highlights\<close> and \<^verbatim>\<open>sources\<close>: the summary is the texts joined by blank lines, cut
  to its first 800 characters followed by "..." when it is longer than 800 (so it
  is never longer than 803); the highlights are the first 200 characters of each of
  the first three texts; the sources have one entry for each document.
\<close>

theorem summarizer_execute_task_result:
  assumes "get_default task (PStr ''payload'') (PDict []) = PDict payload"
    and "validate_input jsv self (PDict payload)"
    and "py_iter (get_default payload (PStr ''documents'') (PList [])) = Inr ds"
    and "list_all is_text_document ds"
  shows "\<exists>summary highlights.
           SummarizerAgent_execute_task jsv self (PDict task) =
             Inr (PDict [(PStr ''summary'', PStr summary),
                         (PStr ''highlights'', PList (map PStr highlights)),
                         (PStr ''sources'', PList (map document_source ds))])
         \<and> summary =
             (if length (join_str [CHR 0x0A, CHR 0x0A] (map document_text ds)) > 800
              then take 800 (join_str [CHR 0x0A, CHR 0x0A] (map document_text ds)) @ ''...''
              else join_str [CHR 0x0A, CHR 0x0A] (map document_text ds))
         \<and> length summary \<le> 803
         \<and> highlights = take 3 (map (\<lambda>d. take 200 (document_text d)) ds)
         \<and> length highlights \<le> 3
         \<and> list_all (\<lambda>h. length h \<le> 200) highlights"
proof -
  let ?combined = "join_str [CHR 0x0A, CHR 0x0A] (map document_text ds)"
  let ?hl = "take 3 (map (\<lambda>d. take 200 (document_text d)) ds)"
  have docs: "summarize_documents (get_default payload (PStr ''documents'') (PList [])) =
          Inr (PDict [(PStr ''summary'', PStr (summarize ?combined)),
                      (PStr ''highlights'', PList (map PStr ?hl)),
                      (PStr ''sources'', PList (map document_source ds))])"
    using assms(3)
    by (simp add: summarize_documents_def combined_text_documents [OF assms(4)]
          highlight_documents [OF assms(4)] source_documents [OF assms(4)] take_map o_def)
  have run: "SummarizerAgent_execute_task jsv self (PDict task) =
          Inr (PDict [(PStr ''summary'', PStr (summarize ?combined)),
                      (PStr ''highlights'', PList (map PStr ?hl)),
                      (PStr ''sources'', PList (map document_source ds))])"
    using assms(1,2) docs by (simp add: SummarizerAgent_execute_task_def)
  have s: "summarize ?combined =
             (if length ?combined > 800 then take 800 ?combined @ ''...'' else ?combined)"
    by (simp add: summarize_def)
  have l: "length (summarize ?combined) \<le> 803" by (rule summarize_length)
  have h3: "length ?hl \<le> 3" by simp
  have h200: "list_all (\<lambda>h. length h \<le> 200) ?hl"
    by (auto simp add: list_all_iff dest!: in_set_takeD)
  from run s l h3 h200 show ?thesis by blast
qed

text \<open>
  C9 at the task of the tests, with the summarizer of the tests and the validator
  that checks required keys: the summary is the two texts joined by a blank line,
  the highlights are the two texts.
\<close>

theorem summarizer_execute_task_result_witness:
  "get_default test_task (PStr ''payload'') (PDict [])
     = PDict [(PStr ''documents'', PList [doc1, doc2])]
   \<and> validate_input required_keys (test_summarizer required_keys :: unit agent)
       (PDict [(PStr ''documents'', PList [doc1, doc2])])
   \<and> py_iter (get_default [(PStr ''documents'', PList [doc1, doc2])] (PStr ''documents'')
        (PList [])) = Inr [doc1, doc2]
   \<and> list_all is_text_document [doc1, doc2]
   \<and> SummarizerAgent_execute_task required_keys (test_summarizer required_keys :: unit agent)
       (PDict test_task)
     = Inr (PDict [(PStr ''summary'',
                      PStr (''This is the content of document 1.'' @ [CHR 0x0A, CHR 0x0A] @
                            ''This is the content of document 2.'')),
                   (PStr ''highlights'',
                      PList [PStr ''This is the content of document 1.'',
                             PStr ''This is the content of document 2.'']),
                   (PStr ''sources'',
                      PList [PDict [(PStr ''id'', PStr ''d1''), (PStr ''title'', PStr ''Doc 1'')],
                             PDict [(PStr ''id'', PStr ''d2''), (PStr ''title'', PStr ''Doc 2'')]])])"
proof -
  have h1: "get_default test_task (PStr ''payload'') (PDict [])
              = PDict [(PStr ''documents'', PList [doc1, doc2])]"
    by (simp add: test_task_def get_default_def)
  have h2: "validate_input required_keys (test_summarizer required_keys :: unit agent)
              (PDict [(PStr ''documents'', PList [doc1, doc2])])"
    by (simp add: validate_input_def required_keys_def test_summarizer_fields)
  have h3: "py_iter (get_default [(PStr ''documents'', PList [doc1, doc2])] (PStr ''documents'')
              (PList [])) = Inr [doc1, doc2]"
    by (simp add: get_default_def)
  have h4: "list_all is_text_document [doc1, doc2]"
    by (simp add: is_text_document_def doc1_def doc2_def get_default_def)
  from summarizer_execute_task_result [OF h1 h2 h3 h4] h1 h2 h3 h4
  show ?thesis
    by (simp add: document_text_def document_source_def doc1_def doc2_def get_default_def)
qed

text \<open>
  C9 as stated fails: the payload \<^verbatim>\<open>{"documents": [1]}\<close> passes the input validation
  of the summarizer of the tests (it has the required key \<^verbatim>\<open>documents\<close>), and of the
  plain summarizer, which has no schema; on it \<^verbatim>\<open>execute_task\<close> raises
  \<^verbatim>\<open>AttributeError\<close>, since the document 1 has no method \<^verbatim>\<open>get\<close>.
\<close>

theorem summarizer_execute_task_counterexample:
  "validate_input required_keys (test_summarizer required_keys :: unit agent)
     (PDict [(PStr ''documents'', PList [PInt 1])])
   \<and> SummarizerAgent_execute_task required_keys (test_summarizer required_keys :: unit agent)
       (PDict number_task) = Inl AttributeError
   \<and> validate_input no_jsonschema (plain_summarizer no_jsonschema :: unit agent)
       (PDict [(PStr ''documents'', PList [PInt 1])])
   \<and> SummarizerAgent_execute_task no_jsonschema (plain_summarizer no_jsonschema :: unit agent)
       (PDict number_task) = Inl AttributeError"
  by (simp add: run_defs required_keys_def test_summarizer_fields plain_summarizer_fields
        number_task_def)

end
